theory Spec2Isabelle
  imports Main "HOL-Library.Word"
begin

section \<open>Values, errors and framework operations\<close>

text \<open>
  The two Move modules \<open>project_x_move::batch\<close> and \<open>project_x_move::escrow\<close> are embedded
  as functions over an explicit record of the effects a transaction has performed so far.
  Move integers of type \<open>u64\<close> are 64-bit words; Move's \<open>+\<close> and \<open>*\<close> abort the transaction on
  overflow, which is written out in \<open>add_u64\<close> and \<open>mul_u64\<close>.
\<close>

type_synonym u64 = "64 word"
type_synonym address = "256 word"

text \<open>
  An object id is derived by the framework from the hash of the creating transaction and the
  number of objects that transaction has created before; the pair stands for that derivation.
\<close>

type_synonym ID = "nat \<times> nat"

datatype location = Batch | Escrow | SuiBalance | StdVector

datatype vm_error =
    MoveAbort location u64
  | ArithmeticError

definition add_u64 :: "u64 \<Rightarrow> u64 \<Rightarrow> vm_error + u64" where
  "add_u64 a b = (if unat a + unat b < 2 ^ 64 then Inr (a + b) else Inl ArithmeticError)"

definition mul_u64 :: "u64 \<Rightarrow> u64 \<Rightarrow> vm_error + u64" where
  "mul_u64 a b = (if unat a * unat b < 2 ^ 64 then Inr (a * b) else Inl ArithmeticError)"

definition div_u64 :: "u64 \<Rightarrow> u64 \<Rightarrow> vm_error + u64" where
  "div_u64 a b = (if b = 0 then Inl ArithmeticError else Inr (a div b))"

text \<open>\<open>std::vector::borrow\<close> aborts with \<open>EINDEX_OUT_OF_BOUNDS\<close> outside the vector.\<close>

definition EINDEX_OUT_OF_BOUNDS :: u64 where
  "EINDEX_OUT_OF_BOUNDS = 0x20000"

definition vector_borrow :: "'a list \<Rightarrow> nat \<Rightarrow> vm_error + 'a" where
  "vector_borrow v i =
     (if i < length v then Inr (v ! i) else Inl (MoveAbort StdVector EINDEX_OUT_OF_BOUNDS))"

text \<open>
  A \<open>Coin<X>\<close> is modelled by the value of its balance. \<open>sui::coin::split\<close> takes \<open>amount\<close> out of
  the coin and aborts with \<open>sui::balance::ENotEnough\<close> when the coin holds less; the result is
  the reduced coin and the new coin.
\<close>

definition ENotEnough :: u64 where
  "ENotEnough = 2"

definition coin_split :: "u64 \<Rightarrow> u64 \<Rightarrow> vm_error + (u64 \<times> u64)" where
  "coin_split self amount =
     (if amount \<le> self then Inr (self - amount, amount)
      else Inl (MoveAbort SuiBalance ENotEnough))"

text \<open>
  The objects a transaction hands over: a coin of the sold type \<open>T\<close>, a coin of the type
  \<open>PaymentCoin\<close>, or an asset of type \<open>T: key + store\<close>, which carries its own id.
\<close>

datatype coin_type = T_coin | PaymentCoin

datatype 'item object =
    Coin coin_type u64
  | Nft "ID \<times> 'item"

definition object_id :: "ID \<times> 'item \<Rightarrow> ID" where
  "object_id item = fst item"

datatype event =
    BatchTokenEvent address u64 u64 u64
      \<comment> \<open>sender, recipient_count, total_amount, fee_amount\<close>
  | CoinLockEvent ID address address u64 u64 u64
      \<comment> \<open>escrow_id, creator, recipient, amount, price, unlock_time\<close>
  | CoinClaimEvent ID address u64 u64
      \<comment> \<open>escrow_id, claimer, amount, price\<close>
  | NftLockEvent ID ID address address u64 u64
      \<comment> \<open>escrow_id, nft_id, creator, recipient, price, unlock_time\<close>
  | NftClaimEvent ID ID address u64
      \<comment> \<open>escrow_id, nft_id, claimer, price\<close>

record TxContext =
  sender :: address
  tx_hash :: nat
  ids_created :: nat

record Clock =
  timestamp_ms :: u64

record ServiceConfig =
  uid :: ID
  owner :: address

record CoinEscrow =
  uid :: ID
  balance :: u64
  creator :: address
  recipient :: address
  price :: u64
  unlock_time :: u64

record 'item NftEscrow =
  uid :: ID
  item :: "ID \<times> 'item"
  creator :: address
  recipient :: address
  price :: u64
  unlock_time :: u64

datatype 'item shared_object =
    SharedCoinEscrow CoinEscrow
  | SharedNftEscrow "'item NftEscrow"

text \<open>
  What a running transaction has done so far, in program order: the calls of
  \<open>transfer::public_transfer\<close>, \<open>transfer::share_object\<close>, \<open>object::delete\<close> and \<open>event::emit\<close>.
  An entry function returns \<open>Inr\<close> of the final effects, or \<open>Inl\<close> of the error together with
  the effects performed before the abort. The ledger discards the effects of an aborted
  transaction (\<open>apply_tx\<close> below).
\<close>

record 'item effects =
  transfers :: "('item object \<times> address) list"
  shared :: "'item shared_object list"
  deleted :: "ID list"
  events :: "event list"

definition public_transfer :: "'item object \<Rightarrow> address \<Rightarrow> 'item effects \<Rightarrow> 'item effects" where
  "public_transfer obj to fx = fx\<lparr>transfers := transfers fx @ [(obj, to)]\<rparr>"

definition share_object :: "'item shared_object \<Rightarrow> 'item effects \<Rightarrow> 'item effects" where
  "share_object obj fx = fx\<lparr>shared := shared fx @ [obj]\<rparr>"

definition object_delete :: "ID \<Rightarrow> 'item effects \<Rightarrow> 'item effects" where
  "object_delete i fx = fx\<lparr>deleted := deleted fx @ [i]\<rparr>"

definition emit :: "event \<Rightarrow> 'item effects \<Rightarrow> 'item effects" where
  "emit ev fx = fx\<lparr>events := events fx @ [ev]\<rparr>"

definition object_new :: "TxContext \<Rightarrow> ID \<times> TxContext" where
  "object_new ctx =
     ((tx_hash ctx, ids_created ctx), ctx\<lparr>ids_created := ids_created ctx + 1\<rparr>)"

section \<open>Module batch\<close>

definition FEE_BPS :: u64 where
  "FEE_BPS = 50"

definition ELengthMismatch :: u64 where
  "ELengthMismatch = 1"

definition EInsufficientBalance :: u64 where
  "EInsufficientBalance = 2"

text \<open>
  The first loop of \<open>batch_send_token\<close>: \<open>while (i < len) { total = total + amounts[i]; i = i + 1 }\<close>.
  The index is a natural number: a Move vector has fewer than \<open>2 ^ 64\<close> elements, so \<open>i + 1\<close>
  cannot overflow while \<open>i < len\<close>, and \<open>len\<close> is the \<open>u64\<close> the event reports.
\<close>

function sum_loop :: "u64 list \<Rightarrow> nat \<Rightarrow> nat \<Rightarrow> u64 \<Rightarrow> vm_error + u64" where
  "sum_loop amounts len i total_amount_to_send =
     (if i < len then
        (case vector_borrow amounts i of
           Inl e \<Rightarrow> Inl e
         | Inr a \<Rightarrow>
             (case add_u64 total_amount_to_send a of
                Inl e \<Rightarrow> Inl e
              | Inr t \<Rightarrow> sum_loop amounts len (i + 1) t))
      else Inr total_amount_to_send)"
  by pat_completeness auto
termination
  by (relation "measure (\<lambda>(amounts, len, i, t). len - i)") auto

text \<open>
  The second loop: for each index, borrow the recipient and the amount, split the amount out
  of \<open>payment\<close> and transfer the new coin. The state is the value left in \<open>payment\<close> and the
  effects.
\<close>

function send_loop ::
  "address list \<Rightarrow> u64 list \<Rightarrow> nat \<Rightarrow> nat \<Rightarrow> u64 \<times> 'item effects \<Rightarrow>
     (vm_error \<times> u64 \<times> 'item effects) + (u64 \<times> 'item effects)" where
  "send_loop recipients amounts len i st =
     (if i < len then
        (case vector_borrow recipients i of
           Inl e \<Rightarrow> Inl (e, st)
         | Inr recipient_i \<Rightarrow>
             (case vector_borrow amounts i of
                Inl e \<Rightarrow> Inl (e, st)
              | Inr amount \<Rightarrow>
                  (case coin_split (fst st) amount of
                     Inl e \<Rightarrow> Inl (e, st)
                   | Inr (payment, send_coin) \<Rightarrow>
                       send_loop recipients amounts len (i + 1)
                         (payment, public_transfer (Coin T_coin send_coin) recipient_i (snd st)))))
      else Inr st)"
  by pat_completeness auto
termination
  by (relation "measure (\<lambda>(recipients, amounts, len, i, st). len - i)") auto

definition batch_send_token ::
  "ServiceConfig \<Rightarrow> u64 \<Rightarrow> address list \<Rightarrow> u64 list \<Rightarrow> TxContext \<Rightarrow> 'item effects \<Rightarrow>
     (vm_error \<times> u64 \<times> 'item effects) + (u64 \<times> 'item effects)" where
  "batch_send_token config payment recipients amounts ctx fx =
     (let len = length recipients in
      if len \<noteq> length amounts then Inl (MoveAbort Batch ELengthMismatch, payment, fx)
      else
        (case sum_loop amounts len 0 0 of
           Inl e \<Rightarrow> Inl (e, payment, fx)
         | Inr total_amount_to_send \<Rightarrow>
        (case mul_u64 total_amount_to_send FEE_BPS of
           Inl e \<Rightarrow> Inl (e, payment, fx)
         | Inr product \<Rightarrow>
        (case div_u64 product 10000 of
           Inl e \<Rightarrow> Inl (e, payment, fx)
         | Inr fee0 \<Rightarrow>
        (let fee_amount = (if fee0 = 0 \<and> total_amount_to_send > 0 then 1 else fee0) in
         case add_u64 total_amount_to_send fee_amount of
           Inl e \<Rightarrow> Inl (e, payment, fx)
         | Inr required \<Rightarrow>
        (if \<not> (payment \<ge> required) then Inl (MoveAbort Batch EInsufficientBalance, payment, fx)
         else
        (case coin_split payment fee_amount of
           Inl e \<Rightarrow> Inl (e, payment, fx)
         | Inr (payment1, fee_coin) \<Rightarrow>
        (case send_loop recipients amounts len 0
                (payment1, public_transfer (Coin T_coin fee_coin) (ServiceConfig.owner config) fx) of
           Inl err \<Rightarrow> Inl err
         | Inr (payment2, fx2) \<Rightarrow>
             Inr (payment2,
                  emit (BatchTokenEvent (sender ctx) (of_nat len) total_amount_to_send fee_amount)
                    fx2)))))))))"

text \<open>
  The quantities the specification names: the sum of the amounts as a natural number, the fee
  as a function of that sum, and the list of coins the loop sends.
\<close>

definition total_amount :: "u64 list \<Rightarrow> nat" where
  "total_amount amounts = sum_list (map unat amounts)"

definition fee_spec :: "nat \<Rightarrow> nat" where
  "fee_spec t = (if t = 0 then 0 else max 1 (t * 50 div 10000))"

definition sent :: "address list \<Rightarrow> u64 list \<Rightarrow> ('item object \<times> address) list" where
  "sent recipients amounts = map (\<lambda>(r, a). (Coin T_coin a, r)) (zip recipients amounts)"

text \<open>The fee as \<open>batch_send_token\<close> computes it once the multiplication has not overflowed.\<close>

definition fee_word :: "u64 \<Rightarrow> u64" where
  "fee_word tot = (if tot * 50 div 10000 = 0 \<and> tot > 0 then 1 else tot * 50 div 10000)"

section \<open>Module escrow\<close>

definition ENotReadyYet :: u64 where
  "ENotReadyYet = 0"

definition ENotRecipient :: u64 where
  "ENotRecipient = 1"

definition EInsufficientPayment :: u64 where
  "EInsufficientPayment = 2"

text \<open>
  \<open>lock_coin\<close> consumes the coin, creates the escrow under a fresh id, emits the event and
  shares the escrow. It has no assertion.
\<close>

definition lock_coin ::
  "u64 \<Rightarrow> address \<Rightarrow> u64 \<Rightarrow> u64 \<Rightarrow> TxContext \<Rightarrow> 'item effects \<Rightarrow> TxContext \<times> 'item effects" where
  "lock_coin coin recipient' price' unlock_time' ctx fx =
     (let amount = coin;
          balance' = coin;
          sender' = sender ctx;
          (id', ctx') = object_new ctx;
          escrow_id = id';
          escrow = \<lparr>CoinEscrow.uid = id', balance = balance', creator = sender',
                    recipient = recipient', price = price', unlock_time = unlock_time'\<rparr>;
          fx1 = emit (CoinLockEvent escrow_id sender' recipient' amount price' unlock_time') fx
      in (ctx', share_object (SharedCoinEscrow escrow) fx1))"

definition claim_coin ::
  "CoinEscrow \<Rightarrow> u64 \<Rightarrow> Clock \<Rightarrow> TxContext \<Rightarrow> 'item effects \<Rightarrow>
     (vm_error \<times> 'item effects) + 'item effects" where
  "claim_coin escrow payment clock ctx fx =
     (if \<not> (sender ctx = CoinEscrow.recipient escrow)
        then Inl (MoveAbort Escrow ENotRecipient, fx)
      else if \<not> (timestamp_ms clock \<ge> CoinEscrow.unlock_time escrow)
        then Inl (MoveAbort Escrow ENotReadyYet, fx)
      else if \<not> (payment \<ge> CoinEscrow.price escrow)
        then Inl (MoveAbort Escrow EInsufficientPayment, fx)
      else
        (let escrow_id = CoinEscrow.uid escrow;
             amount = CoinEscrow.balance escrow;
             fx1 = object_delete (CoinEscrow.uid escrow) fx
         in case coin_split payment (CoinEscrow.price escrow) of
              Inl e \<Rightarrow> Inl (e, fx1)
            | Inr (payment1, paid) \<Rightarrow>
                (let fx2 = public_transfer (Coin PaymentCoin paid) (CoinEscrow.creator escrow) fx1;
                     fx3 = public_transfer (Coin PaymentCoin payment1) (sender ctx) fx2;
                     coin_product = CoinEscrow.balance escrow;
                     fx4 = public_transfer (Coin T_coin coin_product) (sender ctx) fx3
                 in Inr (emit (CoinClaimEvent escrow_id (sender ctx) amount
                                 (CoinEscrow.price escrow)) fx4))))"

definition lock_nft ::
  "ID \<times> 'item \<Rightarrow> address \<Rightarrow> u64 \<Rightarrow> u64 \<Rightarrow> TxContext \<Rightarrow> 'item effects \<Rightarrow>
     TxContext \<times> 'item effects" where
  "lock_nft item' recipient' price' unlock_time' ctx fx =
     (let nft_id = object_id item';
          sender' = sender ctx;
          (id', ctx') = object_new ctx;
          escrow_id = id';
          escrow = \<lparr>NftEscrow.uid = id', item = item', creator = sender',
                    recipient = recipient', price = price', unlock_time = unlock_time'\<rparr>;
          fx1 = emit (NftLockEvent escrow_id nft_id sender' recipient' price' unlock_time') fx
      in (ctx', share_object (SharedNftEscrow escrow) fx1))"

definition claim_nft ::
  "'item NftEscrow \<Rightarrow> u64 \<Rightarrow> Clock \<Rightarrow> TxContext \<Rightarrow> 'item effects \<Rightarrow>
     (vm_error \<times> 'item effects) + 'item effects" where
  "claim_nft escrow payment clock ctx fx =
     (if \<not> (sender ctx = NftEscrow.recipient escrow)
        then Inl (MoveAbort Escrow ENotRecipient, fx)
      else if \<not> (timestamp_ms clock \<ge> NftEscrow.unlock_time escrow)
        then Inl (MoveAbort Escrow ENotReadyYet, fx)
      else if \<not> (payment \<ge> NftEscrow.price escrow)
        then Inl (MoveAbort Escrow EInsufficientPayment, fx)
      else
        (let escrow_id = NftEscrow.uid escrow;
             nft_id = object_id (NftEscrow.item escrow);
             fx1 = object_delete (NftEscrow.uid escrow) fx
         in case coin_split payment (NftEscrow.price escrow) of
              Inl e \<Rightarrow> Inl (e, fx1)
            | Inr (payment1, paid) \<Rightarrow>
                (let fx2 = public_transfer (Coin PaymentCoin paid) (NftEscrow.creator escrow) fx1;
                     fx3 = public_transfer (Coin PaymentCoin payment1) (sender ctx) fx2;
                     fx4 = public_transfer (Nft (NftEscrow.item escrow)) (sender ctx) fx3
                 in Inr (emit (NftClaimEvent escrow_id nft_id (sender ctx)
                                 (NftEscrow.price escrow)) fx4))))"

section \<open>The ledger object store\<close>

text \<open>
  The platform keeps the shared escrow objects under their ids. A transaction names the
  escrow it claims by id; the platform rejects it when no live object has that id, runs the
  entry function otherwise, and applies the effects only when the function returns.
  Every transaction has its own hash, so ids created by different transactions differ.
  Only the module \<open>escrow\<close> can create or unpack an escrow, so these transactions are the only
  ones that change the two tables.
\<close>

record 'item ledger =
  coin_escrows :: "ID \<rightharpoonup> CoinEscrow"
  nft_escrows :: "ID \<rightharpoonup> 'item NftEscrow"
  next_tx :: nat
  delivered :: "('item object \<times> address) list"
  event_log :: "event list"

datatype 'item call =
    LockCoin u64 address u64 u64
  | ClaimCoin ID u64
  | LockNft "ID \<times> 'item" address u64 u64
  | ClaimNft ID u64
  | BatchSend ServiceConfig u64 "address list" "u64 list"

text \<open>A transaction: the sender, the clock's timestamp when it runs, and the call.\<close>

type_synonym 'item tx = "address \<times> u64 \<times> 'item call"

datatype tx_status = Success | Aborted vm_error | ObjectNotFound

definition genesis :: "'item ledger" where
  "genesis = \<lparr>coin_escrows = Map.empty, nft_escrows = Map.empty, next_tx = 0,
              delivered = [], event_log = []\<rparr>"

definition no_effects :: "'item effects" where
  "no_effects = \<lparr>transfers = [], shared = [], deleted = [], events = []\<rparr>"

fun publish :: "'item shared_object \<Rightarrow> 'item ledger \<Rightarrow> 'item ledger" where
  "publish (SharedCoinEscrow e) L = L\<lparr>coin_escrows := (coin_escrows L)(CoinEscrow.uid e \<mapsto> e)\<rparr>"
| "publish (SharedNftEscrow e) L = L\<lparr>nft_escrows := (nft_escrows L)(NftEscrow.uid e \<mapsto> e)\<rparr>"

definition remove :: "ID \<Rightarrow> 'item ledger \<Rightarrow> 'item ledger" where
  "remove i L = L\<lparr>coin_escrows := (coin_escrows L)(i := None),
                  nft_escrows := (nft_escrows L)(i := None)\<rparr>"

definition commit :: "'item effects \<Rightarrow> 'item ledger \<Rightarrow> 'item ledger" where
  "commit fx L =
     (fold remove (deleted fx) (fold publish (shared fx) L))
       \<lparr>next_tx := next_tx L + 1,
        delivered := delivered L @ transfers fx,
        event_log := event_log L @ events fx\<rparr>"

definition tx_context :: "'item ledger \<Rightarrow> address \<Rightarrow> TxContext" where
  "tx_context L who = \<lparr>sender = who, tx_hash = next_tx L, ids_created = 0\<rparr>"

fun apply_call :: "'item ledger \<Rightarrow> address \<Rightarrow> u64 \<Rightarrow> 'item call \<Rightarrow> tx_status \<times> 'item ledger" where
  "apply_call L who now (LockCoin coin recipient' price' unlock_time') =
     (Success,
      commit (snd (lock_coin coin recipient' price' unlock_time' (tx_context L who) no_effects)) L)"
| "apply_call L who now (LockNft item' recipient' price' unlock_time') =
     (Success,
      commit (snd (lock_nft item' recipient' price' unlock_time' (tx_context L who) no_effects)) L)"
| "apply_call L who now (ClaimCoin rid payment) =
     (case coin_escrows L rid of
        None \<Rightarrow> (ObjectNotFound, L)
      | Some escrow \<Rightarrow>
          (case claim_coin escrow payment \<lparr>timestamp_ms = now\<rparr> (tx_context L who) no_effects of
             Inl (e, fx) \<Rightarrow> (Aborted e, L)
           | Inr fx \<Rightarrow> (Success, commit fx L)))"
| "apply_call L who now (ClaimNft rid payment) =
     (case nft_escrows L rid of
        None \<Rightarrow> (ObjectNotFound, L)
      | Some escrow \<Rightarrow>
          (case claim_nft escrow payment \<lparr>timestamp_ms = now\<rparr> (tx_context L who) no_effects of
             Inl (e, fx) \<Rightarrow> (Aborted e, L)
           | Inr fx \<Rightarrow> (Success, commit fx L)))"
| "apply_call L who now (BatchSend config payment recipients amounts) =
     (case batch_send_token config payment recipients amounts (tx_context L who) no_effects of
        Inl (e, st) \<Rightarrow> (Aborted e, L)
      | Inr (payment', fx) \<Rightarrow> (Success, commit fx L))"

definition apply_tx :: "'item ledger \<Rightarrow> 'item tx \<Rightarrow> tx_status \<times> 'item ledger" where
  "apply_tx L t = (case t of (who, now, c) \<Rightarrow> apply_call L who now c)"

fun run :: "'item ledger \<Rightarrow> 'item tx list \<Rightarrow> 'item ledger" where
  "run L [] = L"
| "run L (t # ts) = run (snd (apply_tx L t)) ts"

text \<open>
  Two facts about a ledger: every stored escrow sits under its own id and was created by an
  earlier transaction; and an id is gone when it belongs to an earlier transaction and no
  escrow is stored under it.
\<close>

definition well_formed :: "'item ledger \<Rightarrow> bool" where
  "well_formed L \<longleftrightarrow>
     (\<forall>i e. coin_escrows L i = Some e \<longrightarrow> CoinEscrow.uid e = i \<and> fst i < next_tx L) \<and>
     (\<forall>i e. nft_escrows L i = Some e \<longrightarrow> NftEscrow.uid e = i \<and> fst i < next_tx L)"

definition gone :: "'item ledger \<Rightarrow> ID \<Rightarrow> bool" where
  "gone L i \<longleftrightarrow> fst i < next_tx L \<and> coin_escrows L i = None \<and> nft_escrows L i = None"

section \<open>The loops of batch\_send\_token\<close>

declare sum_loop.simps [simp del]
declare send_loop.simps [simp del]

lemma unat_u64_lt: "unat (w :: u64) < 2 ^ 64"
  using unsigned_less [of w, where ?'a = nat] by simp

lemma sum_loop_eq:
  "i \<le> length amounts \<Longrightarrow>
   sum_loop amounts (length amounts) i t =
     (if unat t + total_amount (drop i amounts) < 2 ^ 64
      then Inr (t + of_nat (total_amount (drop i amounts)))
      else Inl ArithmeticError)"
proof (induction "length amounts - i" arbitrary: i t)
  case 0
  then have "i = length amounts" by simp
  then show ?case
    using unat_u64_lt [of t] by (simp add: sum_loop.simps [of amounts _ "length amounts"] total_amount_def)
next
  case (Suc n)
  then have lt: "i < length amounts" by simp
  let ?a = "amounts ! i"
  have dr: "total_amount (drop i amounts) = unat ?a + total_amount (drop (Suc i) amounts)"
    using lt by (simp add: total_amount_def flip: Cons_nth_drop_Suc)
  show ?case
  proof (cases "unat t + unat ?a < 2 ^ 64")
    case True
    then have ua: "unat (t + ?a) = unat t + unat ?a"
      by (simp add: unat_add_lem [THEN iffD1])
    have step: "sum_loop amounts (length amounts) i t =
                sum_loop amounts (length amounts) (Suc i) (t + ?a)"
      using lt True
      by (simp add: sum_loop.simps [of amounts _ i] vector_borrow_def add_u64_def)
    have ih: "sum_loop amounts (length amounts) (Suc i) (t + ?a) =
       (if unat (t + ?a) + total_amount (drop (Suc i) amounts) < 2 ^ 64
        then Inr (t + ?a + of_nat (total_amount (drop (Suc i) amounts)))
        else Inl ArithmeticError)"
      using Suc.hyps(1) [of "Suc i" "t + ?a"] Suc.hyps(2) lt by simp
    show ?thesis
      by (simp add: step ih ua dr add.assoc)
  next
    case False
    have "sum_loop amounts (length amounts) i t = Inl ArithmeticError"
      using lt False
      by (simp add: sum_loop.simps [of amounts _ i] vector_borrow_def add_u64_def)
    then show ?thesis using False by (simp add: dr)
  qed
qed

lemma total_amount_drop:
  "i < length amounts \<Longrightarrow>
   total_amount (drop i amounts) = unat (amounts ! i) + total_amount (drop (Suc i) amounts)"
  by (simp add: total_amount_def flip: Cons_nth_drop_Suc)

lemma sent_drop:
  "i < length amounts \<Longrightarrow> length recipients = length amounts \<Longrightarrow>
   sent (drop i recipients) (drop i amounts) =
     (Coin T_coin (amounts ! i), recipients ! i) # sent (drop (Suc i) recipients) (drop (Suc i) amounts)"
  by (simp add: sent_def flip: Cons_nth_drop_Suc)

lemma send_loop_eq:
  "length recipients = length amounts \<Longrightarrow> i \<le> length amounts \<Longrightarrow>
   total_amount (drop i amounts) \<le> unat p \<Longrightarrow>
   send_loop recipients amounts (length recipients) i (p, fx) =
     Inr (p - of_nat (total_amount (drop i amounts)),
          fx\<lparr>transfers := transfers fx @ sent (drop i recipients) (drop i amounts)\<rparr>)"
proof (induction "length amounts - i" arbitrary: i p fx)
  case 0
  then have "i = length amounts" by simp
  then show ?case
    using "0.prems"(1)
    by (simp add: send_loop.simps [of recipients amounts _ "length amounts"]
        total_amount_def sent_def)
next
  case (Suc n)
  then have lt: "i < length amounts" by simp
  let ?a = "amounts ! i"
  let ?rest = "total_amount (drop (Suc i) amounts)"
  note dr = total_amount_drop [OF lt]
  have le: "?a \<le> p"
    using Suc.prems(3) by (simp add: dr word_le_nat_alt)
  have up: "unat (p - ?a) = unat p - unat ?a"
    using le by (simp add: unat_sub)
  have step: "send_loop recipients amounts (length recipients) i (p, fx) =
              send_loop recipients amounts (length recipients) (Suc i)
                (p - ?a, public_transfer (Coin T_coin ?a) (recipients ! i) fx)"
    using lt le Suc.prems(1)
    by (simp add: send_loop.simps [of recipients amounts _ i] vector_borrow_def coin_split_def)
  have ih: "send_loop recipients amounts (length recipients) (Suc i)
                (p - ?a, public_transfer (Coin T_coin ?a) (recipients ! i) fx) =
      Inr (p - ?a - of_nat ?rest,
           (public_transfer (Coin T_coin ?a) (recipients ! i) fx)
             \<lparr>transfers := transfers (public_transfer (Coin T_coin ?a) (recipients ! i) fx)
                 @ sent (drop (Suc i) recipients) (drop (Suc i) amounts)\<rparr>)"
    using Suc.hyps(1) [of "Suc i" "p - ?a"] Suc.hyps(2) Suc.prems lt
    by (simp add: up dr)
  have w: "p - ?a - of_nat ?rest = p - of_nat (total_amount (drop i amounts))"
    by (simp add: dr)
  show ?case
    unfolding step ih w
    by (simp add: public_transfer_def sent_drop [OF lt Suc.prems(1)])
qed


section \<open>The result of batch\_send\_token\<close>

lemma unat_fee_word:
  assumes "unat tot * 50 < 2 ^ 64"
  shows "unat (fee_word tot) = fee_spec (unat tot)"
proof -
  have m: "unat (tot * 50) = unat tot * 50"
    using assms unat_mult_lem [of tot 50] by simp
  have d: "unat (tot * 50 div 10000) = unat tot * 50 div 10000"
    by (simp add: unat_div m)
  have z: "(tot * 50 div 10000 = 0) = (unat tot * 50 div 10000 = 0)"
    using d unat_0_iff [of "tot * 50 div 10000"] by simp
  have p: "(tot > 0) = (unat tot \<noteq> 0)"
    using unat_gt_0 [of tot] by (simp add: word_greater_zero_iff unat_0_iff)
  show ?thesis
    unfolding fee_word_def fee_spec_def z p using d by auto
qed

lemma fee_spec_le: "fee_spec t \<le> t"
  by (simp add: fee_spec_def)

lemma sum_loop_all:
  "sum_loop amounts (length amounts) 0 0 =
     (if total_amount amounts < 2 ^ 64 then Inr (of_nat (total_amount amounts))
      else Inl ArithmeticError)"
  using sum_loop_eq [of 0 amounts 0] by simp

lemma unat_total:
  "total_amount amounts < 2 ^ 64 \<Longrightarrow> unat (of_nat (total_amount amounts) :: u64) = total_amount amounts"
  by (simp add: unat_of_nat)

lemma batch_overflow:
  assumes len: "length recipients = length amounts"
    and ov: "\<not> total_amount amounts * 50 < 2 ^ 64"
  shows "batch_send_token config payment recipients amounts ctx fx =
           Inl (ArithmeticError, payment, fx)"
proof (cases "total_amount amounts < 2 ^ 64")
  case True
  have "mul_u64 (of_nat (total_amount amounts)) FEE_BPS = Inl ArithmeticError"
    using ov by (simp add: mul_u64_def FEE_BPS_def unat_total [OF True])
  then show ?thesis
    using len True by (simp add: batch_send_token_def sum_loop_all)
next
  case False
  then show ?thesis
    using len by (simp add: batch_send_token_def sum_loop_all)
qed

lemma batch_no_overflow:
  assumes len: "length recipients = length amounts"
    and nov: "total_amount amounts * 50 < 2 ^ 64"
  shows "batch_send_token config payment recipients amounts ctx fx =
    (if unat payment < total_amount amounts + fee_spec (total_amount amounts)
     then Inl (MoveAbort Batch EInsufficientBalance, payment, fx)
     else Inr (payment - of_nat (total_amount amounts + fee_spec (total_amount amounts)),
               emit (BatchTokenEvent (sender ctx) (of_nat (length recipients))
                       (of_nat (total_amount amounts)) (of_nat (fee_spec (total_amount amounts))))
                 (fx\<lparr>transfers := transfers fx
                       @ (Coin T_coin (of_nat (fee_spec (total_amount amounts))),
                          ServiceConfig.owner config) # sent recipients amounts\<rparr>)))"
proof -
  let ?T = "total_amount amounts"
  let ?t = "of_nat ?T :: u64"
  let ?f = "fee_word ?t"
  have T: "?T < 2 ^ 64" using nov by simp
  have ut: "unat ?t = ?T" by (rule unat_total [OF T])
  have uf: "unat ?f = fee_spec ?T"
    using unat_fee_word [of ?t] nov by (simp add: ut)
  have fw: "?f = of_nat (fee_spec ?T)"
    using uf by (metis of_nat_unat ucast_id)
  have s1: "sum_loop amounts (length amounts) 0 0 = Inr ?t"
    using T by (simp add: sum_loop_all)
  have s2: "mul_u64 ?t FEE_BPS = Inr (?t * 50)"
    using nov by (simp add: mul_u64_def FEE_BPS_def ut)
  have s3: "div_u64 (?t * 50) 10000 = Inr (?t * 50 div 10000)"
    by (simp add: div_u64_def)
  have fits: "?T + fee_spec ?T < 2 ^ 64"
    using nov fee_spec_le [of ?T] by simp
  have s4: "add_u64 ?t ?f = Inr (?t + ?f)"
    using fits by (simp add: add_u64_def ut uf)
  have ureq: "unat (?t + ?f) = ?T + fee_spec ?T"
    using fits unat_add_lem [of ?t ?f] by (simp add: ut uf)
  have s5: "(payment \<ge> ?t + ?f) = (\<not> unat payment < ?T + fee_spec ?T)"
    by (simp add: word_le_nat_alt ureq not_less)
  have head: "batch_send_token config payment recipients amounts ctx fx =
    (if unat payment < ?T + fee_spec ?T
     then Inl (MoveAbort Batch EInsufficientBalance, payment, fx)
     else (case coin_split payment ?f of
             Inl e \<Rightarrow> Inl (e, payment, fx)
           | Inr (payment1, fee_coin) \<Rightarrow>
          (case send_loop recipients amounts (length amounts) 0
                  (payment1, public_transfer (Coin T_coin fee_coin) (ServiceConfig.owner config) fx) of
             Inl err \<Rightarrow> Inl err
           | Inr (payment2, fx2) \<Rightarrow>
               Inr (payment2,
                    emit (BatchTokenEvent (sender ctx) (of_nat (length amounts)) ?t ?f) fx2))))"
    using len s5 by (simp add: batch_send_token_def s1 s2 s3 s4 Let_def flip: fee_word_def)
  show ?thesis
  proof (cases "unat payment < ?T + fee_spec ?T")
    case True
    then show ?thesis by (simp add: head)
  next
    case False
    then have fle: "?f \<le> payment"
      by (simp add: word_le_nat_alt uf)
    have sp: "coin_split payment ?f = Inr (payment - ?f, ?f)"
      using fle by (simp add: coin_split_def)
    have up: "unat (payment - ?f) = unat payment - fee_spec ?T"
      using fle by (simp add: unat_sub uf)
    have enough: "total_amount (drop 0 amounts) \<le> unat (payment - ?f)"
      using False by (simp add: up)
    have lp: "send_loop recipients amounts (length amounts) 0
                (payment - ?f, public_transfer (Coin T_coin ?f) (ServiceConfig.owner config) fx) =
              Inr (payment - ?f - ?t,
                   (public_transfer (Coin T_coin ?f) (ServiceConfig.owner config) fx)
                     \<lparr>transfers :=
                        transfers (public_transfer (Coin T_coin ?f) (ServiceConfig.owner config) fx)
                        @ sent recipients amounts\<rparr>)"
      using send_loop_eq [OF len _ enough, of "public_transfer (Coin T_coin ?f) (ServiceConfig.owner config) fx"]
      by (simp add: len)
    have w: "payment - ?f - ?t = payment - of_nat (?T + fee_spec ?T)"
      by (simp add: fw)
    have r1: "batch_send_token config payment recipients amounts ctx fx =
      Inr (payment - ?f - ?t,
           emit (BatchTokenEvent (sender ctx) (of_nat (length amounts)) ?t ?f)
             ((public_transfer (Coin T_coin ?f) (ServiceConfig.owner config) fx)
                \<lparr>transfers :=
                   transfers (public_transfer (Coin T_coin ?f) (ServiceConfig.owner config) fx)
                   @ sent recipients amounts\<rparr>))"
      using False by (simp add: head sp lp)
    show ?thesis
      using False unfolding r1 w by (simp add: fw public_transfer_def len)
  qed
qed

lemma batch_eq:
  "batch_send_token config payment recipients amounts ctx fx =
    (if length recipients \<noteq> length amounts
       then Inl (MoveAbort Batch ELengthMismatch, payment, fx)
     else if \<not> total_amount amounts * 50 < 2 ^ 64
       then Inl (ArithmeticError, payment, fx)
     else if unat payment < total_amount amounts + fee_spec (total_amount amounts)
       then Inl (MoveAbort Batch EInsufficientBalance, payment, fx)
     else Inr (payment - of_nat (total_amount amounts + fee_spec (total_amount amounts)),
               emit (BatchTokenEvent (sender ctx) (of_nat (length recipients))
                       (of_nat (total_amount amounts)) (of_nat (fee_spec (total_amount amounts))))
                 (fx\<lparr>transfers := transfers fx
                       @ (Coin T_coin (of_nat (fee_spec (total_amount amounts))),
                          ServiceConfig.owner config) # sent recipients amounts\<rparr>)))"
proof (cases "length recipients = length amounts")
  case False
  then show ?thesis by (simp add: batch_send_token_def)
next
  case len: True
  show ?thesis
  proof (cases "total_amount amounts * 50 < 2 ^ 64")
    case True
    show ?thesis
      using True by (simp add: batch_no_overflow [OF len True] len)
  next
    case False
    show ?thesis
      using False by (simp add: batch_overflow [OF len False] len)
  qed
qed

lemma unat_fee:
  "total_amount amounts * 50 < 2 ^ 64 \<Longrightarrow>
   unat (of_nat (fee_spec (total_amount amounts)) :: u64) = fee_spec (total_amount amounts)"
  using fee_spec_le [of "total_amount amounts"] by (simp add: unat_of_nat)

lemma unat_rest:
  assumes "total_amount amounts * 50 < 2 ^ 64"
    and "\<not> unat payment < total_amount amounts + fee_spec (total_amount amounts)"
  shows "unat (payment - of_nat (total_amount amounts + fee_spec (total_amount amounts)) :: u64) =
         unat payment - (total_amount amounts + fee_spec (total_amount amounts))"
proof -
  let ?n = "total_amount amounts + fee_spec (total_amount amounts)"
  have lt: "?n < 2 ^ 64"
    using assms(1) fee_spec_le [of "total_amount amounts"] by simp
  have u: "unat (of_nat ?n :: u64) = ?n"
    using lt by (simp add: unat_of_nat del: of_nat_add)
  have "(of_nat ?n :: u64) \<le> payment"
    using assms(2) by (simp add: word_le_nat_alt u del: of_nat_add)
  then show ?thesis
    by (simp add: unat_sub u del: of_nat_add)
qed

lemma sent_nth:
  "length recipients = length amounts \<Longrightarrow>
   sent recipients amounts =
     map (\<lambda>i. (Coin T_coin (amounts ! i), recipients ! i)) [0..<length recipients]"
  by (auto intro!: nth_equalityI simp: sent_def)

lemma sent_count:
  "length recipients = length amounts \<Longrightarrow>
   length (filter (\<lambda>t. snd t = a) (sent recipients amounts)) = count_list recipients a"
proof (induction recipients arbitrary: amounts)
  case Nil
  then show ?case by (simp add: sent_def)
next
  case (Cons r rs)
  then obtain b bs where "amounts = b # bs" by (cases amounts) auto
  with Cons show ?case by (auto simp: sent_def)
qed

lemma batch_success:
  assumes "batch_send_token config payment recipients amounts ctx fx = Inr (payment', fx')"
  shows "length recipients = length amounts"
    and "total_amount amounts * 50 < 2 ^ 64"
    and "\<not> unat payment < total_amount amounts + fee_spec (total_amount amounts)"
    and "fx' = emit (BatchTokenEvent (sender ctx) (of_nat (length recipients))
                       (of_nat (total_amount amounts)) (of_nat (fee_spec (total_amount amounts))))
                 (fx\<lparr>transfers := transfers fx
                       @ (Coin T_coin (of_nat (fee_spec (total_amount amounts))),
                          ServiceConfig.owner config) # sent recipients amounts\<rparr>)"
  using assms by (simp_all add: batch_eq split: if_splits)

section \<open>Properties of batch\_send\_token\<close>

text \<open>
  C1. Conservation. When \<open>batch_send_token\<close> returns, it has emitted one event carrying the
  total and the fee, the total is the sum of the amounts (as natural numbers, so without
  wrap-around), the coin sent to \<open>config.owner\<close> holds the fee, and the value of \<open>payment\<close>
  before the call is its value after the call plus the total plus the fee.
\<close>

theorem batch_conservation:
  assumes "batch_send_token config payment recipients amounts ctx fx = Inr (payment', fx')"
  shows "\<exists>tot fee.
           events fx' = events fx @
             [BatchTokenEvent (sender ctx) (of_nat (length recipients)) tot fee] \<and>
           unat tot = total_amount amounts \<and>
           transfers fx' ! length (transfers fx) =
             (Coin T_coin fee, ServiceConfig.owner config) \<and>
           unat payment = unat payment' + total_amount amounts + unat fee"
proof -
  let ?T = "total_amount amounts"
  from assms have nov: "?T * 50 < 2 ^ 64"
    and enough: "\<not> unat payment < ?T + fee_spec ?T"
    and p: "payment' = payment - of_nat (?T + fee_spec ?T)"
    and f: "fx' = emit (BatchTokenEvent (sender ctx) (of_nat (length recipients))
                       (of_nat ?T) (of_nat (fee_spec ?T)))
                 (fx\<lparr>transfers := transfers fx
                       @ (Coin T_coin (of_nat (fee_spec ?T)),
                          ServiceConfig.owner config) # sent recipients amounts\<rparr>)"
    by (simp_all add: batch_eq split: if_splits)
  have "unat payment' = unat payment - (?T + fee_spec ?T)"
    using unat_rest [OF nov enough] by (simp add: p)
  then have "unat payment = unat payment' + ?T + unat (of_nat (fee_spec ?T) :: u64)"
    using enough by (simp add: unat_fee [OF nov])
  moreover have "unat (of_nat ?T :: u64) = ?T"
    using nov by (simp add: unat_of_nat)
  ultimately show ?thesis
    by (simp add: f emit_def)
qed

theorem batch_conservation_witness:
  "batch_send_token \<lparr>ServiceConfig.uid = (0, 0), owner = 9\<rparr> 500 [5, 6] [100, 200]
       \<lparr>sender = 1, tx_hash = 3, ids_created = 0\<rparr> (no_effects :: string effects) =
     Inr (199, \<lparr>transfers = [(Coin T_coin 1, 9), (Coin T_coin 100, 5), (Coin T_coin 200, 6)],
               shared = [], deleted = [], events = [BatchTokenEvent 1 2 300 1]\<rparr>) \<and>
   unat (500 :: u64) = unat (199 :: u64) + total_amount [100, 200] + unat (1 :: u64)"
proof -
  have h: "batch_send_token \<lparr>ServiceConfig.uid = (0, 0), owner = 9\<rparr> 500 [5, 6] [100, 200]
       \<lparr>sender = 1, tx_hash = 3, ids_created = 0\<rparr> (no_effects :: string effects) =
     Inr (199, \<lparr>transfers = [(Coin T_coin 1, 9), (Coin T_coin 100, 5), (Coin T_coin 200, 6)],
               shared = [], deleted = [], events = [BatchTokenEvent 1 2 300 1]\<rparr>)"
    by (simp add: batch_eq total_amount_def fee_spec_def sent_def emit_def no_effects_def)
  from batch_conservation [OF h] obtain tot fee where
    "[BatchTokenEvent 1 2 300 1] = events (no_effects :: string effects) @
       [BatchTokenEvent (sender \<lparr>sender = 1, tx_hash = 3, ids_created = 0\<rparr>)
          (of_nat (length [5 :: address, 6])) tot fee]"
    and "unat (500 :: u64) = unat (199 :: u64) + total_amount [100, 200] + unat fee"
    by auto
  then have "unat (500 :: u64) = unat (199 :: u64) + total_amount [100, 200] + unat (1 :: u64)"
    by (simp add: no_effects_def)
  with h show ?thesis by (rule conjI)
qed

text \<open>
  C2, as amended. Fee formula. With vectors of equal length whose total times 50 fits in 64
  bits, the fee is \<open>max 1 (total * 50 div 10000)\<close> when the total of the amounts is at least 1,
  and 0 when the total is 0: a payment coin worth less than the total plus this fee makes the
  call abort with \<open>EInsufficientBalance\<close>, and with any other coin the call returns, this fee is
  the value of the coin sent to \<open>config.owner\<close> and the fee the event reports, and the coin
  has lost the total plus this fee.
\<close>

theorem batch_fee_formula:
  assumes "length recipients = length amounts"
    and "total_amount amounts * 50 < 2 ^ 64"
  shows "\<exists>fee.
           unat fee =
             (if total_amount amounts = 0 then 0
              else max 1 (total_amount amounts * 50 div 10000)) \<and>
           (unat payment < total_amount amounts + unat fee \<longrightarrow>
              batch_send_token config payment recipients amounts ctx fx =
                Inl (MoveAbort Batch EInsufficientBalance, payment, fx)) \<and>
           (total_amount amounts + unat fee \<le> unat payment \<longrightarrow>
              (\<exists>payment' fx'.
                 batch_send_token config payment recipients amounts ctx fx = Inr (payment', fx') \<and>
                 events fx' = events fx @
                   [BatchTokenEvent (sender ctx) (of_nat (length recipients))
                      (of_nat (total_amount amounts)) fee] \<and>
                 transfers fx' ! length (transfers fx) =
                   (Coin T_coin fee, ServiceConfig.owner config) \<and>
                 unat payment = unat payment' + total_amount amounts + unat fee))"
proof -
  let ?T = "total_amount amounts"
  let ?fee = "of_nat (fee_spec ?T) :: u64"
  have uf: "unat ?fee = fee_spec ?T"
    by (rule unat_fee [OF assms(2)])
  have f: "unat ?fee = (if ?T = 0 then 0 else max 1 (?T * 50 div 10000))"
    unfolding uf by (simp add: fee_spec_def)
  have short: "unat payment < ?T + unat ?fee \<longrightarrow>
      batch_send_token config payment recipients amounts ctx fx =
        Inl (MoveAbort Batch EInsufficientBalance, payment, fx)"
    using assms by (simp add: batch_eq uf)
  have paid: "?T + unat ?fee \<le> unat payment \<longrightarrow>
      (\<exists>payment' fx'.
         batch_send_token config payment recipients amounts ctx fx = Inr (payment', fx') \<and>
         events fx' = events fx @
           [BatchTokenEvent (sender ctx) (of_nat (length recipients)) (of_nat ?T) ?fee] \<and>
         transfers fx' ! length (transfers fx) = (Coin T_coin ?fee, ServiceConfig.owner config) \<and>
         unat payment = unat payment' + ?T + unat ?fee)"
  proof
    assume le: "?T + unat ?fee \<le> unat payment"
    then have enough: "\<not> unat payment < ?T + fee_spec ?T"
      by (simp add: uf)
    have r: "unat (payment - of_nat (?T + fee_spec ?T) :: u64) = unat payment - (?T + fee_spec ?T)"
      by (rule unat_rest [OF assms(2) enough])
    have b: "batch_send_token config payment recipients amounts ctx fx =
        Inr (payment - of_nat (?T + fee_spec ?T),
             emit (BatchTokenEvent (sender ctx) (of_nat (length recipients)) (of_nat ?T) ?fee)
               (fx\<lparr>transfers := transfers fx
                     @ (Coin T_coin ?fee, ServiceConfig.owner config) # sent recipients amounts\<rparr>))"
      using assms enough by (simp add: batch_eq del: of_nat_add)
    have c: "unat payment =
        unat (payment - of_nat (?T + fee_spec ?T) :: u64) + ?T + unat ?fee"
      using enough unfolding r uf by simp
    show "\<exists>payment' fx'.
         batch_send_token config payment recipients amounts ctx fx = Inr (payment', fx') \<and>
         events fx' = events fx @
           [BatchTokenEvent (sender ctx) (of_nat (length recipients)) (of_nat ?T) ?fee] \<and>
         transfers fx' ! length (transfers fx) = (Coin T_coin ?fee, ServiceConfig.owner config) \<and>
         unat payment = unat payment' + ?T + unat ?fee"
      using c unfolding b by (simp add: emit_def del: of_nat_add)
  qed
  from f short paid show ?thesis by blast
qed

theorem batch_fee_formula_witness:
  "(length [5 :: address, 6] = length [10000 :: u64, 30000] \<and>
    total_amount [10000, 30000] * 50 < 2 ^ 64 \<and>
    total_amount [10000, 30000] + 200 \<le> unat (50000 :: u64)) \<and>
   max 1 (total_amount [10000, 30000] * 50 div 10000) = 200 \<and>
   batch_send_token \<lparr>ServiceConfig.uid = (0, 0), owner = 9\<rparr> 50000 [5, 6] [10000, 30000]
       \<lparr>sender = 1, tx_hash = 3, ids_created = 0\<rparr> (no_effects :: string effects) =
     Inr (9800, \<lparr>transfers = [(Coin T_coin 200, 9), (Coin T_coin 10000, 5), (Coin T_coin 30000, 6)],
               shared = [], deleted = [], events = [BatchTokenEvent 1 2 40000 200]\<rparr>) \<and>
   (length [5 :: address] = length [3 :: u64] \<and> total_amount [3] * 50 < 2 ^ 64 \<and>
    unat (3 :: u64) < total_amount [3] + 1) \<and>
   max 1 (total_amount [3] * 50 div 10000) = 1 \<and>
   batch_send_token \<lparr>ServiceConfig.uid = (0, 0), owner = 9\<rparr> 3 [5] [3]
       \<lparr>sender = 1, tx_hash = 3, ids_created = 0\<rparr> (no_effects :: string effects) =
     Inl (MoveAbort Batch EInsufficientBalance, 3, no_effects) \<and>
   (length ([] :: address list) = length ([] :: u64 list) \<and> total_amount [] = 0) \<and>
   batch_send_token \<lparr>ServiceConfig.uid = (0, 0), owner = 9\<rparr> 7 [] []
       \<lparr>sender = 1, tx_hash = 3, ids_created = 0\<rparr> (no_effects :: string effects) =
     Inr (7, \<lparr>transfers = [(Coin T_coin 0, 9)],
               shared = [], deleted = [], events = [BatchTokenEvent 1 0 0 0]\<rparr>)"
proof -
  have t: "total_amount [10000, 30000] = 40000" "total_amount [3] = 3" "total_amount [] = 0"
    by (simp_all add: total_amount_def)
  have l1: "length [5 :: address, 6] = length [10000 :: u64, 30000]" by simp
  have n1: "total_amount [10000, 30000] * 50 < 2 ^ 64" by (simp add: t)
  have l2: "length [5 :: address] = length [3 :: u64]" by simp
  have n2: "total_amount [3] * 50 < 2 ^ 64" by (simp add: t)
  have l3: "length ([] :: address list) = length ([] :: u64 list)" by simp
  have n3: "total_amount [] * 50 < 2 ^ 64" by (simp add: t)
  from batch_fee_formula [OF l1 n1, of 50000 "\<lparr>ServiceConfig.uid = (0, 0), owner = 9\<rparr>"
      "\<lparr>sender = 1, tx_hash = 3, ids_created = 0\<rparr>" "no_effects :: string effects"]
  obtain fee1 :: u64 and p1 and fx1 :: "string effects" where
    f1: "unat fee1 = 200"
    and r1: "batch_send_token \<lparr>ServiceConfig.uid = (0, 0), owner = 9\<rparr> 50000 [5, 6] [10000, 30000]
       \<lparr>sender = 1, tx_hash = 3, ids_created = 0\<rparr> (no_effects :: string effects) = Inr (p1, fx1)"
    by (auto simp: t)
  have e1: "batch_send_token \<lparr>ServiceConfig.uid = (0, 0), owner = 9\<rparr> 50000 [5, 6] [10000, 30000]
       \<lparr>sender = 1, tx_hash = 3, ids_created = 0\<rparr> (no_effects :: string effects) =
     Inr (9800, \<lparr>transfers = [(Coin T_coin 200, 9), (Coin T_coin 10000, 5), (Coin T_coin 30000, 6)],
               shared = [], deleted = [], events = [BatchTokenEvent 1 2 40000 200]\<rparr>)"
    using r1 by (simp add: batch_eq t fee_spec_def sent_def emit_def no_effects_def)
  from batch_fee_formula [OF l2 n2, of 3 "\<lparr>ServiceConfig.uid = (0, 0), owner = 9\<rparr>"
      "\<lparr>sender = 1, tx_hash = 3, ids_created = 0\<rparr>" "no_effects :: string effects"]
  have e2: "batch_send_token \<lparr>ServiceConfig.uid = (0, 0), owner = 9\<rparr> 3 [5] [3]
       \<lparr>sender = 1, tx_hash = 3, ids_created = 0\<rparr> (no_effects :: string effects) =
     Inl (MoveAbort Batch EInsufficientBalance, 3, no_effects)"
    by (auto simp: t)
  from batch_fee_formula [OF l3 n3, of 7 "\<lparr>ServiceConfig.uid = (0, 0), owner = 9\<rparr>"
      "\<lparr>sender = 1, tx_hash = 3, ids_created = 0\<rparr>" "no_effects :: string effects"]
  obtain p3 and fx3 :: "string effects" where
    r3: "batch_send_token \<lparr>ServiceConfig.uid = (0, 0), owner = 9\<rparr> 7 [] []
       \<lparr>sender = 1, tx_hash = 3, ids_created = 0\<rparr> (no_effects :: string effects) = Inr (p3, fx3)"
    by (auto simp: t)
  have e3: "batch_send_token \<lparr>ServiceConfig.uid = (0, 0), owner = 9\<rparr> 7 [] []
       \<lparr>sender = 1, tx_hash = 3, ids_created = 0\<rparr> (no_effects :: string effects) =
     Inr (7, \<lparr>transfers = [(Coin T_coin 0, 9)],
               shared = [], deleted = [], events = [BatchTokenEvent 1 0 0 0]\<rparr>)"
    using r3 by (simp add: batch_eq t fee_spec_def sent_def emit_def no_effects_def)
  show ?thesis
    using e1 e2 e3 by (simp add: t)
qed

text \<open>
  C2 as stated does not hold for every call: with amounts \<open>[2^63]\<close> and a coin worth
  \<open>2^64 - 1\<close>, which covers the total plus the fee of the formula, the multiplication by
  \<open>FEE_BPS\<close> overflows; the call aborts with an arithmetic error and charges no fee.
\<close>

theorem batch_fee_formula_counterexample:
  "length [5 :: address] = length [9223372036854775808 :: u64] \<and>
   1 \<le> total_amount [9223372036854775808] \<and>
   max 1 (total_amount [9223372036854775808] * 50 div 10000) = 46116860184273879 \<and>
   total_amount [9223372036854775808] + 46116860184273879 \<le> unat (18446744073709551615 :: u64) \<and>
   batch_send_token \<lparr>ServiceConfig.uid = (0, 0), owner = 9\<rparr> 18446744073709551615 [5]
       [9223372036854775808]
       \<lparr>sender = 1, tx_hash = 3, ids_created = 0\<rparr> (no_effects :: string effects) =
     Inl (ArithmeticError, 18446744073709551615, no_effects) \<and>
   transfers (no_effects :: string effects) = [] \<and>
   events (no_effects :: string effects) = []"
  by (simp add: batch_eq total_amount_def no_effects_def)

text \<open>
  C7. When \<open>recipients\<close> and \<open>amounts\<close> differ in length, \<open>batch_send_token\<close> aborts with
  \<open>ELengthMismatch\<close>, and at the abort the payment coin and the effects are the ones the call
  started with: nothing was split, transferred or emitted.
\<close>

theorem batch_length_mismatch_aborts:
  "length recipients \<noteq> length amounts \<Longrightarrow>
   batch_send_token config payment recipients amounts ctx fx =
     Inl (MoveAbort Batch ELengthMismatch, payment, fx)"
  by (simp add: batch_send_token_def)

theorem batch_length_mismatch_aborts_witness:
  "length [5 :: address, 6] \<noteq> length [10 :: u64] \<and>
   batch_send_token \<lparr>ServiceConfig.uid = (0, 0), owner = 9\<rparr> 100 [5, 6] [10]
       \<lparr>sender = 1, tx_hash = 3, ids_created = 0\<rparr>
       (\<lparr>transfers = [], shared = [], deleted = [], events = []\<rparr> :: unit effects) =
     Inl (MoveAbort Batch ELengthMismatch, 100,
          \<lparr>transfers = [], shared = [], deleted = [], events = []\<rparr>)"
  using batch_length_mismatch_aborts
    [of "[5 :: address, 6]" "[10 :: u64]" "\<lparr>ServiceConfig.uid = (0, 0), owner = 9\<rparr>" 100
        "\<lparr>sender = 1, tx_hash = 3, ids_created = 0\<rparr>"
        "\<lparr>transfers = [], shared = [], deleted = [], events = []\<rparr> :: unit effects"]
  by simp

text \<open>
  C8, as amended. With vectors of equal length whose total times 50 fits in 64 bits (then
  the total and the total plus the fee fit too), a payment coin worth less than the total plus the
  fee makes \<open>batch_send_token\<close> abort with \<open>EInsufficientBalance\<close>, and at the abort the coin and
  the effects are untouched. With amounts \<open>[1]\<close> and an empty coin the required value is 2.
\<close>

theorem batch_insufficient_balance:
  assumes "length recipients = length amounts"
    and "total_amount amounts * 50 < 2 ^ 64"
    and "unat payment < total_amount amounts + fee_spec (total_amount amounts)"
  shows "batch_send_token config payment recipients amounts ctx fx =
           Inl (MoveAbort Batch EInsufficientBalance, payment, fx)"
  using assms by (simp add: batch_eq)

theorem batch_insufficient_balance_witness:
  "length [5 :: address] = length [1 :: u64] \<and>
   total_amount [1] * 50 < 2 ^ 64 \<and>
   unat (0 :: u64) < total_amount [1] + fee_spec (total_amount [1]) \<and>
   total_amount [1] + fee_spec (total_amount [1]) = 2 \<and>
   batch_send_token \<lparr>ServiceConfig.uid = (0, 0), owner = 9\<rparr> 0 [5] [1]
       \<lparr>sender = 1, tx_hash = 3, ids_created = 0\<rparr> (no_effects :: string effects) =
     Inl (MoveAbort Batch EInsufficientBalance, 0, no_effects)"
proof -
  have a: "length [5 :: address] = length [1 :: u64]" by simp
  have b: "total_amount [1] * 50 < 2 ^ 64" by (simp add: total_amount_def)
  have c: "unat (0 :: u64) < total_amount [1] + fee_spec (total_amount [1])"
    by (simp add: total_amount_def fee_spec_def)
  have d: "total_amount [1] + fee_spec (total_amount [1]) = 2"
    by (simp add: total_amount_def fee_spec_def)
  from a b c d batch_insufficient_balance [OF a b c] show ?thesis by blast
qed

text \<open>
  C8 as stated does not hold: with amounts \<open>[2^64 - 1, 1]\<close> the vectors have equal
  length and the coin is worth less than the total plus the fee, but the addition in the first
  loop overflows and the call aborts with an arithmetic error, not with \<open>EInsufficientBalance\<close>.
\<close>

theorem batch_insufficient_balance_counterexample:
  "length [5 :: address, 6] = length [18446744073709551615 :: u64, 1] \<and>
   unat (1000 :: u64) <
     total_amount [18446744073709551615, 1] + fee_spec (total_amount [18446744073709551615, 1]) \<and>
   batch_send_token \<lparr>ServiceConfig.uid = (0, 0), owner = 9\<rparr> 1000 [5, 6]
       [18446744073709551615, 1]
       \<lparr>sender = 1, tx_hash = 3, ids_created = 0\<rparr> (no_effects :: string effects) =
     Inl (ArithmeticError, 1000, no_effects) \<and>
   batch_send_token \<lparr>ServiceConfig.uid = (0, 0), owner = 9\<rparr> 1000 [5, 6]
       [18446744073709551615, 1]
       \<lparr>sender = 1, tx_hash = 3, ids_created = 0\<rparr> (no_effects :: string effects) \<noteq>
     Inl (MoveAbort Batch EInsufficientBalance, 1000, no_effects)"
  by (simp add: batch_eq total_amount_def fee_spec_def)

text \<open>
  C9. Order of transfers. In a call that returns, the transfers added to the effects are, in
  this order: one coin holding the fee to \<open>config.owner\<close>, then for each index \<open>i\<close> from 0
  upwards one coin holding \<open>amounts[i]\<close> to \<open>recipients[i]\<close>. After the fee transfer, an
  address receives as many transfers as it occurs in \<open>recipients\<close>.
\<close>

theorem batch_transfer_order:
  assumes "batch_send_token config payment recipients amounts ctx fx = Inr (payment', fx')"
  shows "\<exists>fee.
           transfers fx' =
             transfers fx @ (Coin T_coin fee, ServiceConfig.owner config) #
               map (\<lambda>i. (Coin T_coin (amounts ! i), recipients ! i)) [0..<length recipients] \<and>
           unat fee = fee_spec (total_amount amounts) \<and>
           (\<forall>a. length (filter (\<lambda>t. snd t = a)
                          (drop (Suc (length (transfers fx))) (transfers fx'))) =
                count_list recipients a)"
proof -
  note s = batch_success [OF assms]
  let ?fee = "of_nat (fee_spec (total_amount amounts)) :: u64"
  have tr: "transfers fx' =
          transfers fx @ (Coin T_coin ?fee, ServiceConfig.owner config) # sent recipients amounts"
    by (simp add: s(4) emit_def)
  have "transfers fx' =
          transfers fx @ (Coin T_coin ?fee, ServiceConfig.owner config) #
            map (\<lambda>i. (Coin T_coin (amounts ! i), recipients ! i)) [0..<length recipients]"
    unfolding tr by (simp add: sent_nth [OF s(1)])
  moreover have "unat ?fee = fee_spec (total_amount amounts)"
    by (rule unat_fee [OF s(2)])
  moreover have "\<forall>a. length (filter (\<lambda>t. snd t = a)
                          (drop (Suc (length (transfers fx))) (transfers fx'))) =
                count_list recipients a"
    unfolding tr by (simp add: sent_count [OF s(1)])
  ultimately show ?thesis by blast
qed

theorem batch_transfer_order_witness:
  "batch_send_token \<lparr>ServiceConfig.uid = (0, 0), owner = 9\<rparr> 500 [5, 6, 5] [100, 200, 7]
       \<lparr>sender = 1, tx_hash = 3, ids_created = 0\<rparr> (no_effects :: string effects) =
     Inr (192, \<lparr>transfers = [(Coin T_coin 1, 9), (Coin T_coin 100, 5), (Coin T_coin 200, 6),
                               (Coin T_coin 7, 5)],
               shared = [], deleted = [], events = [BatchTokenEvent 1 3 307 1]\<rparr>) \<and>
   length (filter (\<lambda>t. snd t = 5)
     (drop (Suc (length (transfers (no_effects :: string effects))))
        [(Coin T_coin 1, 9), (Coin T_coin 100, 5), (Coin T_coin 200, 6),
         (Coin T_coin 7, 5 :: address) :: string object \<times> address])) =
     count_list [5 :: address, 6, 5] 5"
proof -
  have h: "batch_send_token \<lparr>ServiceConfig.uid = (0, 0), owner = 9\<rparr> 500 [5, 6, 5] [100, 200, 7]
       \<lparr>sender = 1, tx_hash = 3, ids_created = 0\<rparr> (no_effects :: string effects) =
     Inr (192, \<lparr>transfers = [(Coin T_coin 1, 9), (Coin T_coin 100, 5), (Coin T_coin 200, 6),
                               (Coin T_coin 7, 5)],
               shared = [], deleted = [], events = [BatchTokenEvent 1 3 307 1]\<rparr>)"
    by (simp add: batch_eq total_amount_def fee_spec_def sent_def emit_def no_effects_def)
  from batch_transfer_order [OF h] have
    "length (filter (\<lambda>t. snd t = 5)
     (drop (Suc (length (transfers (no_effects :: string effects))))
        [(Coin T_coin 1, 9), (Coin T_coin 100, 5), (Coin T_coin 200, 6),
         (Coin T_coin 7, 5 :: address) :: string object \<times> address])) =
     count_list [5 :: address, 6, 5] 5"
    by (elim exE conjE allE [of _ "5 :: address"]) simp
  with h show ?thesis by (rule conjI)
qed

text \<open>
  C10. Arithmetic aborts. When the total of the amounts, the total times 50 and the total plus
  the fee are below \<open>2^64\<close>, the call aborts with \<open>ELengthMismatch\<close>, aborts with
  \<open>EInsufficientBalance\<close>, or returns. With vectors of equal length and a total above
  \<open>(2^64 - 1) div 50\<close> the call aborts with an arithmetic error, the coin and the effects
  untouched; when that total still fits in 64 bits, the first loop returns it and the
  multiplication by \<open>FEE_BPS\<close> is what aborts.
\<close>

theorem batch_abort_codes:
  "(total_amount amounts < 2 ^ 64 \<and> total_amount amounts * 50 < 2 ^ 64 \<and>
    total_amount amounts + fee_spec (total_amount amounts) < 2 ^ 64 \<longrightarrow>
      batch_send_token config payment recipients amounts ctx fx =
        (if length recipients \<noteq> length amounts
           then Inl (MoveAbort Batch ELengthMismatch, payment, fx)
         else if unat payment < total_amount amounts + fee_spec (total_amount amounts)
           then Inl (MoveAbort Batch EInsufficientBalance, payment, fx)
         else Inr (payment - of_nat (total_amount amounts + fee_spec (total_amount amounts)),
               emit (BatchTokenEvent (sender ctx) (of_nat (length recipients))
                       (of_nat (total_amount amounts)) (of_nat (fee_spec (total_amount amounts))))
                 (fx\<lparr>transfers := transfers fx
                       @ (Coin T_coin (of_nat (fee_spec (total_amount amounts))),
                          ServiceConfig.owner config) # sent recipients amounts\<rparr>)))) \<and>
   (length recipients = length amounts \<and>
    total_amount amounts > (2 ^ 64 - 1) div 50 \<longrightarrow>
      batch_send_token config payment recipients amounts ctx fx =
        Inl (ArithmeticError, payment, fx)) \<and>
   (length recipients = length amounts \<and>
    total_amount amounts > (2 ^ 64 - 1) div 50 \<and> total_amount amounts < 2 ^ 64 \<longrightarrow>
      sum_loop amounts (length recipients) 0 0 = Inr (of_nat (total_amount amounts)) \<and>
      mul_u64 (of_nat (total_amount amounts)) FEE_BPS = Inl ArithmeticError)"
proof (intro conjI impI)
  assume "total_amount amounts < 2 ^ 64 \<and> total_amount amounts * 50 < 2 ^ 64 \<and>
    total_amount amounts + fee_spec (total_amount amounts) < 2 ^ 64"
  then show "batch_send_token config payment recipients amounts ctx fx =
        (if length recipients \<noteq> length amounts
           then Inl (MoveAbort Batch ELengthMismatch, payment, fx)
         else if unat payment < total_amount amounts + fee_spec (total_amount amounts)
           then Inl (MoveAbort Batch EInsufficientBalance, payment, fx)
         else Inr (payment - of_nat (total_amount amounts + fee_spec (total_amount amounts)),
               emit (BatchTokenEvent (sender ctx) (of_nat (length recipients))
                       (of_nat (total_amount amounts)) (of_nat (fee_spec (total_amount amounts))))
                 (fx\<lparr>transfers := transfers fx
                       @ (Coin T_coin (of_nat (fee_spec (total_amount amounts))),
                          ServiceConfig.owner config) # sent recipients amounts\<rparr>)))"
    by (simp add: batch_eq)
next
  assume a: "length recipients = length amounts \<and> total_amount amounts > (2 ^ 64 - 1) div 50"
  then have "\<not> total_amount amounts * 50 < 2 ^ 64" by simp
  with a show "batch_send_token config payment recipients amounts ctx fx =
        Inl (ArithmeticError, payment, fx)"
    by (simp add: batch_eq)
next
  assume a: "length recipients = length amounts \<and>
    total_amount amounts > (2 ^ 64 - 1) div 50 \<and> total_amount amounts < 2 ^ 64"
  then show "sum_loop amounts (length recipients) 0 0 = Inr (of_nat (total_amount amounts))"
    by (simp add: sum_loop_all)
next
  assume a: "length recipients = length amounts \<and>
    total_amount amounts > (2 ^ 64 - 1) div 50 \<and> total_amount amounts < 2 ^ 64"
  then have "\<not> total_amount amounts * 50 < 2 ^ 64" by simp
  with a show "mul_u64 (of_nat (total_amount amounts)) FEE_BPS = Inl ArithmeticError"
    by (simp add: mul_u64_def FEE_BPS_def unat_total)
qed

theorem batch_abort_codes_witness:
  "(total_amount [100, 200] < 2 ^ 64 \<and> total_amount [100, 200] * 50 < 2 ^ 64 \<and>
    total_amount [100, 200] + fee_spec (total_amount [100, 200]) < 2 ^ 64) \<and>
   batch_send_token \<lparr>ServiceConfig.uid = (0, 0), owner = 9\<rparr> 500 [5, 6] [100, 200]
       \<lparr>sender = 1, tx_hash = 3, ids_created = 0\<rparr> (no_effects :: string effects) =
     Inr (199, \<lparr>transfers = [(Coin T_coin 1, 9), (Coin T_coin 100, 5), (Coin T_coin 200, 6)],
               shared = [], deleted = [], events = [BatchTokenEvent 1 2 300 1]\<rparr>) \<and>
   (length [5 :: address] = length [9223372036854775808 :: u64] \<and>
    total_amount [9223372036854775808] > (2 ^ 64 - 1) div 50 \<and>
    total_amount [9223372036854775808] < 2 ^ 64) \<and>
   batch_send_token \<lparr>ServiceConfig.uid = (0, 0), owner = 9\<rparr> 500 [5] [9223372036854775808]
       \<lparr>sender = 1, tx_hash = 3, ids_created = 0\<rparr> (no_effects :: string effects) =
     Inl (ArithmeticError, 500, no_effects) \<and>
   sum_loop [9223372036854775808] (length [5 :: address]) 0 0 = Inr 9223372036854775808 \<and>
   mul_u64 9223372036854775808 FEE_BPS = Inl ArithmeticError"
proof -
  have a: "total_amount [100, 200] < 2 ^ 64 \<and> total_amount [100, 200] * 50 < 2 ^ 64 \<and>
    total_amount [100, 200] + fee_spec (total_amount [100, 200]) < 2 ^ 64"
    by (simp add: total_amount_def fee_spec_def)
  have b: "length [5 :: address] = length [9223372036854775808 :: u64] \<and>
    total_amount [9223372036854775808] > (2 ^ 64 - 1) div 50 \<and>
    total_amount [9223372036854775808] < 2 ^ 64"
    by (simp add: total_amount_def)
  have b': "length [5 :: address] = length [9223372036854775808 :: u64] \<and>
    total_amount [9223372036854775808] > (2 ^ 64 - 1) div 50"
    using b by blast
  have t: "(of_nat (total_amount [9223372036854775808]) :: u64) = 9223372036854775808"
    by (simp add: total_amount_def)
  note w1 = batch_abort_codes [where amounts = "[100, 200]" and recipients = "[5, 6]"
      and payment = 500 and config = "\<lparr>ServiceConfig.uid = (0, 0), owner = 9\<rparr>"
      and ctx = "\<lparr>sender = 1, tx_hash = 3, ids_created = 0\<rparr>"
      and fx = "no_effects :: string effects"]
  note w2 = batch_abort_codes [where amounts = "[9223372036854775808]" and recipients = "[5]"
      and payment = 500 and config = "\<lparr>ServiceConfig.uid = (0, 0), owner = 9\<rparr>"
      and ctx = "\<lparr>sender = 1, tx_hash = 3, ids_created = 0\<rparr>"
      and fx = "no_effects :: string effects"]
  have r1: "batch_send_token \<lparr>ServiceConfig.uid = (0, 0), owner = 9\<rparr> 500 [5, 6] [100, 200]
       \<lparr>sender = 1, tx_hash = 3, ids_created = 0\<rparr> (no_effects :: string effects) =
     Inr (199, \<lparr>transfers = [(Coin T_coin 1, 9), (Coin T_coin 100, 5), (Coin T_coin 200, 6)],
               shared = [], deleted = [], events = [BatchTokenEvent 1 2 300 1]\<rparr>)"
    using w1 [THEN conjunct1, rule_format, OF a]
    by (simp add: total_amount_def fee_spec_def sent_def emit_def no_effects_def)
  have r2: "batch_send_token \<lparr>ServiceConfig.uid = (0, 0), owner = 9\<rparr> 500 [5] [9223372036854775808]
       \<lparr>sender = 1, tx_hash = 3, ids_created = 0\<rparr> (no_effects :: string effects) =
     Inl (ArithmeticError, 500, no_effects)"
    using w2 [THEN conjunct2, THEN conjunct1, rule_format, OF b'] .
  have r3: "sum_loop [9223372036854775808] (length [5 :: address]) 0 0 = Inr 9223372036854775808 \<and>
   mul_u64 9223372036854775808 FEE_BPS = Inl ArithmeticError"
    using w2 [THEN conjunct2, THEN conjunct2, rule_format, OF b] unfolding t .
  from a r1 b r2 r3 show ?thesis by blast
qed

section \<open>The result of a claim\<close>

lemma claim_coin_eq:
  "claim_coin e payment clock ctx fx =
     (if sender ctx \<noteq> CoinEscrow.recipient e then Inl (MoveAbort Escrow ENotRecipient, fx)
      else if timestamp_ms clock < CoinEscrow.unlock_time e
        then Inl (MoveAbort Escrow ENotReadyYet, fx)
      else if payment < CoinEscrow.price e then Inl (MoveAbort Escrow EInsufficientPayment, fx)
      else Inr (fx\<lparr>transfers := transfers fx @
                     [(Coin PaymentCoin (CoinEscrow.price e), CoinEscrow.creator e),
                      (Coin PaymentCoin (payment - CoinEscrow.price e), sender ctx),
                      (Coin T_coin (CoinEscrow.balance e), sender ctx)],
                   deleted := deleted fx @ [CoinEscrow.uid e],
                   events := events fx @
                     [CoinClaimEvent (CoinEscrow.uid e) (sender ctx) (CoinEscrow.balance e)
                        (CoinEscrow.price e)]\<rparr>))"
  by (simp add: claim_coin_def coin_split_def public_transfer_def object_delete_def emit_def
      Let_def not_le)

lemma claim_nft_eq:
  "claim_nft n payment clock ctx fx =
     (if sender ctx \<noteq> NftEscrow.recipient n then Inl (MoveAbort Escrow ENotRecipient, fx)
      else if timestamp_ms clock < NftEscrow.unlock_time n
        then Inl (MoveAbort Escrow ENotReadyYet, fx)
      else if payment < NftEscrow.price n then Inl (MoveAbort Escrow EInsufficientPayment, fx)
      else Inr (fx\<lparr>transfers := transfers fx @
                     [(Coin PaymentCoin (NftEscrow.price n), NftEscrow.creator n),
                      (Coin PaymentCoin (payment - NftEscrow.price n), sender ctx),
                      (Nft (NftEscrow.item n), sender ctx)],
                   deleted := deleted fx @ [NftEscrow.uid n],
                   events := events fx @
                     [NftClaimEvent (NftEscrow.uid n) (object_id (NftEscrow.item n)) (sender ctx)
                        (NftEscrow.price n)]\<rparr>))"
  by (simp add: claim_nft_def coin_split_def public_transfer_def object_delete_def emit_def
      Let_def not_le)

text \<open>The change is exact: the payment covers the price, so the subtraction does not wrap.\<close>

lemma change_exact:
  "p \<le> (payment :: u64) \<Longrightarrow> unat (payment - p) + unat p = unat payment"
  by (simp add: unat_sub word_le_nat_alt)

section \<open>Transactions on the ledger\<close>

lemma apply_lock_coin:
  "apply_call L who now (LockCoin c r p u) =
     (Success,
      L\<lparr>coin_escrows := (coin_escrows L)((next_tx L, 0) \<mapsto>
           \<lparr>CoinEscrow.uid = (next_tx L, 0), balance = c, creator = who, recipient = r,
            price = p, unlock_time = u\<rparr>),
        next_tx := next_tx L + 1,
        event_log := event_log L @ [CoinLockEvent (next_tx L, 0) who r c p u]\<rparr>)"
  by (simp add: lock_coin_def object_new_def tx_context_def emit_def share_object_def
      no_effects_def commit_def Let_def)

lemma apply_lock_nft:
  "apply_call L who now (LockNft it r p u) =
     (Success,
      L\<lparr>nft_escrows := (nft_escrows L)((next_tx L, 0) \<mapsto>
           \<lparr>NftEscrow.uid = (next_tx L, 0), item = it, creator = who, recipient = r,
            price = p, unlock_time = u\<rparr>),
        next_tx := next_tx L + 1,
        event_log := event_log L @ [NftLockEvent (next_tx L, 0) (object_id it) who r p u]\<rparr>)"
  by (simp add: lock_nft_def object_new_def tx_context_def emit_def share_object_def
      no_effects_def commit_def Let_def)

lemma apply_claim_coin:
  "apply_call L who now (ClaimCoin rid payment) =
     (case coin_escrows L rid of
        None \<Rightarrow> (ObjectNotFound, L)
      | Some e \<Rightarrow>
          if who \<noteq> CoinEscrow.recipient e then (Aborted (MoveAbort Escrow ENotRecipient), L)
          else if now < CoinEscrow.unlock_time e then (Aborted (MoveAbort Escrow ENotReadyYet), L)
          else if payment < CoinEscrow.price e
            then (Aborted (MoveAbort Escrow EInsufficientPayment), L)
          else (Success,
                L\<lparr>coin_escrows := (coin_escrows L)(CoinEscrow.uid e := None),
                  nft_escrows := (nft_escrows L)(CoinEscrow.uid e := None),
                  next_tx := next_tx L + 1,
                  delivered := delivered L @
                    [(Coin PaymentCoin (CoinEscrow.price e), CoinEscrow.creator e),
                     (Coin PaymentCoin (payment - CoinEscrow.price e), who),
                     (Coin T_coin (CoinEscrow.balance e), who)],
                  event_log := event_log L @
                    [CoinClaimEvent (CoinEscrow.uid e) who (CoinEscrow.balance e)
                       (CoinEscrow.price e)]\<rparr>))"
  by (simp add: claim_coin_eq tx_context_def no_effects_def commit_def remove_def
      split: option.split)

lemma apply_claim_nft:
  "apply_call L who now (ClaimNft rid payment) =
     (case nft_escrows L rid of
        None \<Rightarrow> (ObjectNotFound, L)
      | Some n \<Rightarrow>
          if who \<noteq> NftEscrow.recipient n then (Aborted (MoveAbort Escrow ENotRecipient), L)
          else if now < NftEscrow.unlock_time n then (Aborted (MoveAbort Escrow ENotReadyYet), L)
          else if payment < NftEscrow.price n
            then (Aborted (MoveAbort Escrow EInsufficientPayment), L)
          else (Success,
                L\<lparr>coin_escrows := (coin_escrows L)(NftEscrow.uid n := None),
                  nft_escrows := (nft_escrows L)(NftEscrow.uid n := None),
                  next_tx := next_tx L + 1,
                  delivered := delivered L @
                    [(Coin PaymentCoin (NftEscrow.price n), NftEscrow.creator n),
                     (Coin PaymentCoin (payment - NftEscrow.price n), who),
                     (Nft (NftEscrow.item n), who)],
                  event_log := event_log L @
                    [NftClaimEvent (NftEscrow.uid n) (object_id (NftEscrow.item n)) who
                       (NftEscrow.price n)]\<rparr>))"
  by (simp add: claim_nft_eq tx_context_def no_effects_def commit_def remove_def
      split: option.split)

lemma apply_batch_send:
  "coin_escrows (snd (apply_call L who now (BatchSend config payment recipients amounts))) =
     coin_escrows L"
  "nft_escrows (snd (apply_call L who now (BatchSend config payment recipients amounts))) =
     nft_escrows L"
  "next_tx L \<le> next_tx (snd (apply_call L who now (BatchSend config payment recipients amounts)))"
  by (simp_all add: batch_eq emit_def no_effects_def commit_def)

lemmas apply_escrow_calls = apply_lock_coin apply_lock_nft apply_claim_coin apply_claim_nft

declare apply_call.simps [simp del]

lemma gone_step: "gone L i \<Longrightarrow> gone (snd (apply_tx L t)) i"
proof -
  assume g: "gone L i"
  obtain who now c where t: "t = (who, now, c)" by (cases t) auto
  have ne: "i \<noteq> (next_tx L, 0)"
    using g by (auto simp: gone_def)
  show ?thesis
  proof (cases c)
    case (BatchSend config payment recipients amounts)
    then show ?thesis
      using g apply_batch_send [of L who now config payment recipients amounts]
      by (simp add: gone_def apply_tx_def t)
  qed (use g ne in \<open>auto simp: gone_def apply_tx_def t apply_escrow_calls
         split: option.split\<close>)
qed

lemma gone_run: "gone L i \<Longrightarrow> gone (run L ts) i"
  by (induction ts arbitrary: L) (simp_all add: gone_step)

lemma well_formed_step: "well_formed L \<Longrightarrow> well_formed (snd (apply_tx L t))"
proof -
  assume w: "well_formed L"
  obtain who now c where t: "t = (who, now, c)" by (cases t) auto
  show ?thesis
  proof (cases c)
    case (BatchSend config payment recipients amounts)
    then show ?thesis
      using w apply_batch_send [of L who now config payment recipients amounts]
      by (fastforce simp: well_formed_def apply_tx_def t)
  qed (use w in \<open>auto simp: well_formed_def apply_tx_def t apply_escrow_calls less_Suc_eq
         split: option.split if_splits\<close>)
qed

lemma well_formed_run: "well_formed L \<Longrightarrow> well_formed (run L ts)"
  by (induction ts arbitrary: L) (simp_all add: well_formed_step)

lemma well_formed_genesis: "well_formed genesis"
  by (simp add: well_formed_def genesis_def)

lemma gone_not_found:
  "gone L i \<Longrightarrow> apply_tx L (who, now, ClaimCoin i payment) = (ObjectNotFound, L)"
  "gone L i \<Longrightarrow> apply_tx L (who, now, ClaimNft i payment) = (ObjectNotFound, L)"
  by (simp_all add: gone_def apply_tx_def apply_claim_coin apply_claim_nft)

lemma well_formed_coin:
  "well_formed L \<Longrightarrow> coin_escrows L i = Some e \<Longrightarrow> CoinEscrow.uid e = i \<and> fst i < next_tx L"
  unfolding well_formed_def by blast

lemma well_formed_nft:
  "well_formed L \<Longrightarrow> nft_escrows L i = Some n \<Longrightarrow> NftEscrow.uid n = i \<and> fst i < next_tx L"
  unfolding well_formed_def by blast

lemma claim_coin_gone:
  assumes "well_formed L"
    and "apply_tx L (who, now, ClaimCoin rid payment) = (Success, L1)"
  shows "\<exists>e. coin_escrows L rid = Some e \<and> CoinEscrow.uid e = rid \<and>
           delivered L1 = delivered L @
             [(Coin PaymentCoin (CoinEscrow.price e), CoinEscrow.creator e),
              (Coin PaymentCoin (payment - CoinEscrow.price e), who),
              (Coin T_coin (CoinEscrow.balance e), who)]"
    and "gone L1 rid"
proof -
  from assms(2) obtain e where e: "coin_escrows L rid = Some e"
    and L1: "L1 = L\<lparr>coin_escrows := (coin_escrows L)(CoinEscrow.uid e := None),
                  nft_escrows := (nft_escrows L)(CoinEscrow.uid e := None),
                  next_tx := next_tx L + 1,
                  delivered := delivered L @
                    [(Coin PaymentCoin (CoinEscrow.price e), CoinEscrow.creator e),
                     (Coin PaymentCoin (payment - CoinEscrow.price e), who),
                     (Coin T_coin (CoinEscrow.balance e), who)],
                  event_log := event_log L @
                    [CoinClaimEvent (CoinEscrow.uid e) who (CoinEscrow.balance e)
                       (CoinEscrow.price e)]\<rparr>"
    by (auto simp: apply_tx_def apply_claim_coin split: option.splits if_splits)
  note w = well_formed_coin [OF assms(1) e]
  show "\<exists>e. coin_escrows L rid = Some e \<and> CoinEscrow.uid e = rid \<and>
           delivered L1 = delivered L @
             [(Coin PaymentCoin (CoinEscrow.price e), CoinEscrow.creator e),
              (Coin PaymentCoin (payment - CoinEscrow.price e), who),
              (Coin T_coin (CoinEscrow.balance e), who)]"
    using e w by (simp add: L1)
  show "gone L1 rid"
    using w by (simp add: gone_def L1)
qed

lemma claim_nft_gone:
  assumes "well_formed L"
    and "apply_tx L (who, now, ClaimNft rid payment) = (Success, L1)"
  shows "\<exists>n. nft_escrows L rid = Some n \<and> NftEscrow.uid n = rid \<and>
           delivered L1 = delivered L @
             [(Coin PaymentCoin (NftEscrow.price n), NftEscrow.creator n),
              (Coin PaymentCoin (payment - NftEscrow.price n), who),
              (Nft (NftEscrow.item n), who)]"
    and "gone L1 rid"
proof -
  from assms(2) obtain n where n: "nft_escrows L rid = Some n"
    and L1: "L1 = L\<lparr>coin_escrows := (coin_escrows L)(NftEscrow.uid n := None),
                  nft_escrows := (nft_escrows L)(NftEscrow.uid n := None),
                  next_tx := next_tx L + 1,
                  delivered := delivered L @
                    [(Coin PaymentCoin (NftEscrow.price n), NftEscrow.creator n),
                     (Coin PaymentCoin (payment - NftEscrow.price n), who),
                     (Nft (NftEscrow.item n), who)],
                  event_log := event_log L @
                    [NftClaimEvent (NftEscrow.uid n) (object_id (NftEscrow.item n)) who
                       (NftEscrow.price n)]\<rparr>"
    by (auto simp: apply_tx_def apply_claim_nft split: option.splits if_splits)
  note w = well_formed_nft [OF assms(1) n]
  show "\<exists>n. nft_escrows L rid = Some n \<and> NftEscrow.uid n = rid \<and>
           delivered L1 = delivered L @
             [(Coin PaymentCoin (NftEscrow.price n), NftEscrow.creator n),
              (Coin PaymentCoin (payment - NftEscrow.price n), who),
              (Nft (NftEscrow.item n), who)]"
    using n w by (simp add: L1)
  show "gone L1 rid"
    using w by (simp add: gone_def L1)
qed

section \<open>Properties of the escrow claims\<close>

text \<open>
  C3. A claim returns exactly when the sender is the recipient, the clock has reached
  \<open>unlock_time\<close> and the payment covers the price. Its transfers are then, in order: a coin of
  \<open>price\<close> units of the payment to the creator, the rest of the payment to the sender, and the
  whole escrowed balance (for \<open>claim_nft\<close>: the escrowed asset) to the sender.
\<close>

theorem claim_transfers:
  "(claim_coin e payment clock ctx fx = Inr fx' \<longleftrightarrow>
      sender ctx = CoinEscrow.recipient e \<and>
      CoinEscrow.unlock_time e \<le> timestamp_ms clock \<and>
      CoinEscrow.price e \<le> payment \<and>
      fx' = fx\<lparr>transfers := transfers fx @
                     [(Coin PaymentCoin (CoinEscrow.price e), CoinEscrow.creator e),
                      (Coin PaymentCoin (payment - CoinEscrow.price e), sender ctx),
                      (Coin T_coin (CoinEscrow.balance e), sender ctx)],
                   deleted := deleted fx @ [CoinEscrow.uid e],
                   events := events fx @
                     [CoinClaimEvent (CoinEscrow.uid e) (sender ctx) (CoinEscrow.balance e)
                        (CoinEscrow.price e)]\<rparr>) \<and>
   (claim_nft n payment clock ctx fx = Inr fx' \<longleftrightarrow>
      sender ctx = NftEscrow.recipient n \<and>
      NftEscrow.unlock_time n \<le> timestamp_ms clock \<and>
      NftEscrow.price n \<le> payment \<and>
      fx' = fx\<lparr>transfers := transfers fx @
                     [(Coin PaymentCoin (NftEscrow.price n), NftEscrow.creator n),
                      (Coin PaymentCoin (payment - NftEscrow.price n), sender ctx),
                      (Nft (NftEscrow.item n), sender ctx)],
                   deleted := deleted fx @ [NftEscrow.uid n],
                   events := events fx @
                     [NftClaimEvent (NftEscrow.uid n) (object_id (NftEscrow.item n)) (sender ctx)
                        (NftEscrow.price n)]\<rparr>)"
  by (auto simp: claim_coin_eq claim_nft_eq not_less)

theorem claim_transfers_witness:
  "claim_coin \<lparr>CoinEscrow.uid = (0, 0), balance = 1000, creator = 1, recipient = 7, price = 40, unlock_time = 100\<rparr>
     50 \<lparr>timestamp_ms = 100\<rparr> \<lparr>sender = 7, tx_hash = 3, ids_created = 0\<rparr> (no_effects :: string effects) =
   Inr \<lparr>transfers = [(Coin PaymentCoin 40, 1), (Coin PaymentCoin 10, 7), (Coin T_coin 1000, 7)],
        shared = [], deleted = [(0, 0)], events = [CoinClaimEvent (0, 0) 7 1000 40]\<rparr> \<and>
   claim_nft \<lparr>NftEscrow.uid = (1, 0), item = ((9, 9), ''art''), creator = 1, recipient = 7, price = 40, unlock_time = 100\<rparr>
     50 \<lparr>timestamp_ms = 100\<rparr> \<lparr>sender = 7, tx_hash = 3, ids_created = 0\<rparr> (no_effects :: string effects) =
   Inr \<lparr>transfers = [(Coin PaymentCoin 40, 1), (Coin PaymentCoin 10, 7), (Nft ((9, 9), ''art''), 7)],
        shared = [], deleted = [(1, 0)], events = [NftClaimEvent (1, 0) (9, 9) 7 40]\<rparr>"
proof (rule conjI)
  show "claim_coin \<lparr>CoinEscrow.uid = (0, 0), balance = 1000, creator = 1, recipient = 7, price = 40, unlock_time = 100\<rparr>
     50 \<lparr>timestamp_ms = 100\<rparr> \<lparr>sender = 7, tx_hash = 3, ids_created = 0\<rparr> (no_effects :: string effects) =
   Inr \<lparr>transfers = [(Coin PaymentCoin 40, 1), (Coin PaymentCoin 10, 7), (Coin T_coin 1000, 7)],
        shared = [], deleted = [(0, 0)], events = [CoinClaimEvent (0, 0) 7 1000 40]\<rparr>"
    using claim_transfers [where e = "\<lparr>CoinEscrow.uid = (0, 0), balance = 1000, creator = 1, recipient = 7, price = 40, unlock_time = 100\<rparr>"
        and payment = 50 and clock = "\<lparr>timestamp_ms = 100\<rparr>" and ctx = "\<lparr>sender = 7, tx_hash = 3, ids_created = 0\<rparr>" and fx = "(no_effects :: string effects)"
        and fx' = "\<lparr>transfers = [(Coin PaymentCoin 40, 1), (Coin PaymentCoin 10, 7), (Coin T_coin 1000, 7)],
        shared = [], deleted = [(0, 0)], events = [CoinClaimEvent (0, 0) 7 1000 40]\<rparr>",
        THEN conjunct1]
    by (simp add: no_effects_def)
  show "claim_nft \<lparr>NftEscrow.uid = (1, 0), item = ((9, 9), ''art''), creator = 1, recipient = 7, price = 40, unlock_time = 100\<rparr>
     50 \<lparr>timestamp_ms = 100\<rparr> \<lparr>sender = 7, tx_hash = 3, ids_created = 0\<rparr> (no_effects :: string effects) =
   Inr \<lparr>transfers = [(Coin PaymentCoin 40, 1), (Coin PaymentCoin 10, 7), (Nft ((9, 9), ''art''), 7)],
        shared = [], deleted = [(1, 0)], events = [NftClaimEvent (1, 0) (9, 9) 7 40]\<rparr>"
    using claim_transfers [where n = "\<lparr>NftEscrow.uid = (1, 0), item = ((9, 9), ''art''), creator = 1, recipient = 7, price = 40, unlock_time = 100\<rparr>"
        and payment = 50 and clock = "\<lparr>timestamp_ms = 100\<rparr>" and ctx = "\<lparr>sender = 7, tx_hash = 3, ids_created = 0\<rparr>" and fx = "(no_effects :: string effects)"
        and fx' = "\<lparr>transfers = [(Coin PaymentCoin 40, 1), (Coin PaymentCoin 10, 7), (Nft ((9, 9), ''art''), 7)],
        shared = [], deleted = [(1, 0)], events = [NftClaimEvent (1, 0) (9, 9) 7 40]\<rparr>",
        THEN conjunct2]
    by (simp add: no_effects_def object_id_def)
qed

text \<open>
  C4. A claim whose sender is not the escrow's recipient aborts with \<open>ENotRecipient\<close>, whatever
  the clock and the payment; at the abort the effects are untouched, and the ledger keeps its
  state.
\<close>

theorem claim_not_recipient:
  "(sender ctx \<noteq> CoinEscrow.recipient e \<longrightarrow>
      claim_coin e payment clock ctx fx = Inl (MoveAbort Escrow ENotRecipient, fx)) \<and>
   (sender ctx \<noteq> NftEscrow.recipient n \<longrightarrow>
      claim_nft n payment clock ctx fx = Inl (MoveAbort Escrow ENotRecipient, fx)) \<and>
   (coin_escrows L rid = Some e \<and> who \<noteq> CoinEscrow.recipient e \<longrightarrow>
      apply_tx L (who, now, ClaimCoin rid payment) =
        (Aborted (MoveAbort Escrow ENotRecipient), L)) \<and>
   (nft_escrows L rid = Some n \<and> who \<noteq> NftEscrow.recipient n \<longrightarrow>
      apply_tx L (who, now, ClaimNft rid payment) =
        (Aborted (MoveAbort Escrow ENotRecipient), L))"
  by (simp add: claim_coin_eq claim_nft_eq apply_tx_def apply_claim_coin apply_claim_nft)

theorem claim_not_recipient_witness:
  "sender \<lparr>sender = 1, tx_hash = 3, ids_created = 0\<rparr> \<noteq> CoinEscrow.recipient \<lparr>CoinEscrow.uid = (0, 0), balance = 1000, creator = 1, recipient = 7, price = 40, unlock_time = 100\<rparr> \<and>
   claim_coin \<lparr>CoinEscrow.uid = (0, 0), balance = 1000, creator = 1, recipient = 7, price = 40, unlock_time = 100\<rparr>
     50 \<lparr>timestamp_ms = 100\<rparr> \<lparr>sender = 1, tx_hash = 3, ids_created = 0\<rparr> (no_effects :: string effects) =
   Inl (MoveAbort Escrow ENotRecipient, no_effects) \<and>
   claim_nft \<lparr>NftEscrow.uid = (1, 0), item = ((9, 9), ''art''), creator = 1, recipient = 7, price = 40, unlock_time = 100\<rparr>
     50 \<lparr>timestamp_ms = 100\<rparr> \<lparr>sender = 1, tx_hash = 3, ids_created = 0\<rparr> (no_effects :: string effects) =
   Inl (MoveAbort Escrow ENotRecipient, no_effects) \<and>
   apply_tx \<lparr>coin_escrows = [(0, 0) \<mapsto> \<lparr>CoinEscrow.uid = (0, 0), balance = 1000, creator = 1, recipient = 7, price = 40, unlock_time = 100\<rparr>],
       nft_escrows = [(1, 0) \<mapsto> \<lparr>NftEscrow.uid = (1, 0), item = ((9, 9), ''art''), creator = 1, recipient = 7, price = 40, unlock_time = 100\<rparr>],
       next_tx = 2, delivered = [], event_log = []\<rparr> (1, 100, ClaimCoin (0, 0) 50) =
     (Aborted (MoveAbort Escrow ENotRecipient), \<lparr>coin_escrows = [(0, 0) \<mapsto> \<lparr>CoinEscrow.uid = (0, 0), balance = 1000, creator = 1, recipient = 7, price = 40, unlock_time = 100\<rparr>],
       nft_escrows = [(1, 0) \<mapsto> \<lparr>NftEscrow.uid = (1, 0), item = ((9, 9), ''art''), creator = 1, recipient = 7, price = 40, unlock_time = 100\<rparr>],
       next_tx = 2, delivered = [], event_log = []\<rparr>) \<and>
   apply_tx \<lparr>coin_escrows = [(0, 0) \<mapsto> \<lparr>CoinEscrow.uid = (0, 0), balance = 1000, creator = 1, recipient = 7, price = 40, unlock_time = 100\<rparr>],
       nft_escrows = [(1, 0) \<mapsto> \<lparr>NftEscrow.uid = (1, 0), item = ((9, 9), ''art''), creator = 1, recipient = 7, price = 40, unlock_time = 100\<rparr>],
       next_tx = 2, delivered = [], event_log = []\<rparr> (1, 100, ClaimNft (1, 0) 50) =
     (Aborted (MoveAbort Escrow ENotRecipient), \<lparr>coin_escrows = [(0, 0) \<mapsto> \<lparr>CoinEscrow.uid = (0, 0), balance = 1000, creator = 1, recipient = 7, price = 40, unlock_time = 100\<rparr>],
       nft_escrows = [(1, 0) \<mapsto> \<lparr>NftEscrow.uid = (1, 0), item = ((9, 9), ''art''), creator = 1, recipient = 7, price = 40, unlock_time = 100\<rparr>],
       next_tx = 2, delivered = [], event_log = []\<rparr>)"
  using claim_not_recipient [where e = "\<lparr>CoinEscrow.uid = (0, 0), balance = 1000, creator = 1, recipient = 7, price = 40, unlock_time = 100\<rparr>" and n = "\<lparr>NftEscrow.uid = (1, 0), item = ((9, 9), ''art''), creator = 1, recipient = 7, price = 40, unlock_time = 100\<rparr>"
        and payment = 50 and clock = "\<lparr>timestamp_ms = 100\<rparr>" and ctx = "\<lparr>sender = 1, tx_hash = 3, ids_created = 0\<rparr>" and fx = "(no_effects :: string effects)"
        and L = "\<lparr>coin_escrows = [(0, 0) \<mapsto> \<lparr>CoinEscrow.uid = (0, 0), balance = 1000, creator = 1, recipient = 7, price = 40, unlock_time = 100\<rparr>],
       nft_escrows = [(1, 0) \<mapsto> \<lparr>NftEscrow.uid = (1, 0), item = ((9, 9), ''art''), creator = 1, recipient = 7, price = 40, unlock_time = 100\<rparr>],
       next_tx = 2, delivered = [], event_log = []\<rparr>" and rid = "(0, 0)" and who = 1 and now = 100]
    claim_not_recipient [where e = "\<lparr>CoinEscrow.uid = (0, 0), balance = 1000, creator = 1, recipient = 7, price = 40, unlock_time = 100\<rparr>" and n = "\<lparr>NftEscrow.uid = (1, 0), item = ((9, 9), ''art''), creator = 1, recipient = 7, price = 40, unlock_time = 100\<rparr>"
        and payment = 50 and clock = "\<lparr>timestamp_ms = 100\<rparr>" and ctx = "\<lparr>sender = 1, tx_hash = 3, ids_created = 0\<rparr>" and fx = "(no_effects :: string effects)"
        and L = "\<lparr>coin_escrows = [(0, 0) \<mapsto> \<lparr>CoinEscrow.uid = (0, 0), balance = 1000, creator = 1, recipient = 7, price = 40, unlock_time = 100\<rparr>],
       nft_escrows = [(1, 0) \<mapsto> \<lparr>NftEscrow.uid = (1, 0), item = ((9, 9), ''art''), creator = 1, recipient = 7, price = 40, unlock_time = 100\<rparr>],
       next_tx = 2, delivered = [], event_log = []\<rparr>" and rid = "(1, 0)" and who = 1 and now = 100]
  by simp

text \<open>
  C5. A claim by the recipient with a sufficient payment aborts with \<open>ENotReadyYet\<close> while the
  clock is before \<open>unlock_time\<close>. For an escrow with \<open>unlock_time = 0\<close> the result of a claim
  does not depend on the clock, and a claim by the recipient with a sufficient payment returns.
\<close>

theorem claim_time_gate:
  "(sender ctx = CoinEscrow.recipient e \<and> CoinEscrow.price e \<le> payment \<and>
    timestamp_ms clock < CoinEscrow.unlock_time e \<longrightarrow>
      claim_coin e payment clock ctx fx = Inl (MoveAbort Escrow ENotReadyYet, fx)) \<and>
   (sender ctx = NftEscrow.recipient n \<and> NftEscrow.price n \<le> payment \<and>
    timestamp_ms clock < NftEscrow.unlock_time n \<longrightarrow>
      claim_nft n payment clock ctx fx = Inl (MoveAbort Escrow ENotReadyYet, fx)) \<and>
   (CoinEscrow.unlock_time e = 0 \<longrightarrow>
      claim_coin e payment clock ctx fx = claim_coin e payment clock' ctx fx) \<and>
   (CoinEscrow.unlock_time e = 0 \<and> sender ctx = CoinEscrow.recipient e \<and>
    CoinEscrow.price e \<le> payment \<longrightarrow>
      (\<exists>fx'. claim_coin e payment clock ctx fx = Inr fx')) \<and>
   (NftEscrow.unlock_time n = 0 \<longrightarrow>
      claim_nft n payment clock ctx fx = claim_nft n payment clock' ctx fx) \<and>
   (NftEscrow.unlock_time n = 0 \<and> sender ctx = NftEscrow.recipient n \<and>
    NftEscrow.price n \<le> payment \<longrightarrow>
      (\<exists>fx'. claim_nft n payment clock ctx fx = Inr fx'))"
proof (intro conjI impI)
  assume "sender ctx = CoinEscrow.recipient e \<and> CoinEscrow.price e \<le> payment \<and>
    timestamp_ms clock < CoinEscrow.unlock_time e"
  then show "claim_coin e payment clock ctx fx = Inl (MoveAbort Escrow ENotReadyYet, fx)"
    by (simp add: claim_coin_eq)
next
  assume "sender ctx = NftEscrow.recipient n \<and> NftEscrow.price n \<le> payment \<and>
    timestamp_ms clock < NftEscrow.unlock_time n"
  then show "claim_nft n payment clock ctx fx = Inl (MoveAbort Escrow ENotReadyYet, fx)"
    by (simp add: claim_nft_eq)
next
  assume "CoinEscrow.unlock_time e = 0"
  then show "claim_coin e payment clock ctx fx = claim_coin e payment clock' ctx fx"
    by (simp add: claim_coin_eq)
next
  assume "CoinEscrow.unlock_time e = 0 \<and> sender ctx = CoinEscrow.recipient e \<and>
    CoinEscrow.price e \<le> payment"
  then show "\<exists>fx'. claim_coin e payment clock ctx fx = Inr fx'"
    by (simp add: claim_coin_eq not_less [symmetric])
next
  assume "NftEscrow.unlock_time n = 0"
  then show "claim_nft n payment clock ctx fx = claim_nft n payment clock' ctx fx"
    by (simp add: claim_nft_eq)
next
  assume "NftEscrow.unlock_time n = 0 \<and> sender ctx = NftEscrow.recipient n \<and>
    NftEscrow.price n \<le> payment"
  then show "\<exists>fx'. claim_nft n payment clock ctx fx = Inr fx'"
    by (simp add: claim_nft_eq not_less [symmetric])
qed

theorem claim_time_gate_witness:
  "timestamp_ms \<lparr>timestamp_ms = 99\<rparr> < CoinEscrow.unlock_time \<lparr>CoinEscrow.uid = (0, 0), balance = 1000, creator = 1, recipient = 7, price = 40, unlock_time = 100\<rparr> \<and>
   claim_coin \<lparr>CoinEscrow.uid = (0, 0), balance = 1000, creator = 1, recipient = 7, price = 40, unlock_time = 100\<rparr>
     50 \<lparr>timestamp_ms = 99\<rparr> \<lparr>sender = 7, tx_hash = 3, ids_created = 0\<rparr> (no_effects :: string effects) =
   Inl (MoveAbort Escrow ENotReadyYet, no_effects) \<and>
   claim_nft \<lparr>NftEscrow.uid = (1, 0), item = ((9, 9), ''art''), creator = 1, recipient = 7, price = 40, unlock_time = 100\<rparr>
     50 \<lparr>timestamp_ms = 99\<rparr> \<lparr>sender = 7, tx_hash = 3, ids_created = 0\<rparr> (no_effects :: string effects) =
   Inl (MoveAbort Escrow ENotReadyYet, no_effects) \<and>
   claim_coin \<lparr>CoinEscrow.uid = (0, 0), balance = 1000, creator = 1, recipient = 7, price = 0, unlock_time = 0\<rparr>
     0 \<lparr>timestamp_ms = 99\<rparr> \<lparr>sender = 7, tx_hash = 3, ids_created = 0\<rparr> (no_effects :: string effects) =
   claim_coin \<lparr>CoinEscrow.uid = (0, 0), balance = 1000, creator = 1, recipient = 7, price = 0, unlock_time = 0\<rparr>
     0 \<lparr>timestamp_ms = 0\<rparr> \<lparr>sender = 7, tx_hash = 3, ids_created = 0\<rparr> (no_effects :: string effects) \<and>
   (\<exists>fx'. claim_coin \<lparr>CoinEscrow.uid = (0, 0), balance = 1000, creator = 1, recipient = 7, price = 0, unlock_time = 0\<rparr>
     0 \<lparr>timestamp_ms = 99\<rparr> \<lparr>sender = 7, tx_hash = 3, ids_created = 0\<rparr> (no_effects :: string effects) = Inr fx') \<and>
   claim_nft \<lparr>NftEscrow.uid = (1, 0), item = ((9, 9), ''art''), creator = 1, recipient = 7, price = 0, unlock_time = 0\<rparr>
     0 \<lparr>timestamp_ms = 99\<rparr> \<lparr>sender = 7, tx_hash = 3, ids_created = 0\<rparr> (no_effects :: string effects) =
   claim_nft \<lparr>NftEscrow.uid = (1, 0), item = ((9, 9), ''art''), creator = 1, recipient = 7, price = 0, unlock_time = 0\<rparr>
     0 \<lparr>timestamp_ms = 0\<rparr> \<lparr>sender = 7, tx_hash = 3, ids_created = 0\<rparr> (no_effects :: string effects) \<and>
   (\<exists>fx'. claim_nft \<lparr>NftEscrow.uid = (1, 0), item = ((9, 9), ''art''), creator = 1, recipient = 7, price = 0, unlock_time = 0\<rparr>
     0 \<lparr>timestamp_ms = 99\<rparr> \<lparr>sender = 7, tx_hash = 3, ids_created = 0\<rparr> (no_effects :: string effects) = Inr fx')"
proof -
  note g = claim_time_gate [where e = "\<lparr>CoinEscrow.uid = (0, 0), balance = 1000, creator = 1, recipient = 7, price = 40, unlock_time = 100\<rparr>" and n = "\<lparr>NftEscrow.uid = (1, 0), item = ((9, 9), ''art''), creator = 1, recipient = 7, price = 40, unlock_time = 100\<rparr>"
        and payment = 50 and clock = "\<lparr>timestamp_ms = 99\<rparr>" and ctx = "\<lparr>sender = 7, tx_hash = 3, ids_created = 0\<rparr>" and fx = "(no_effects :: string effects)"]
  note z = claim_time_gate [where e = "\<lparr>CoinEscrow.uid = (0, 0), balance = 1000, creator = 1, recipient = 7, price = 0, unlock_time = 0\<rparr>" and n = "\<lparr>NftEscrow.uid = (1, 0), item = ((9, 9), ''art''), creator = 1, recipient = 7, price = 0, unlock_time = 0\<rparr>"
        and payment = 0 and clock = "\<lparr>timestamp_ms = 99\<rparr>" and clock' = "\<lparr>timestamp_ms = 0\<rparr>" and ctx = "\<lparr>sender = 7, tx_hash = 3, ids_created = 0\<rparr>"
        and fx = "(no_effects :: string effects)"]
  have a: "timestamp_ms \<lparr>timestamp_ms = 99\<rparr> < CoinEscrow.unlock_time \<lparr>CoinEscrow.uid = (0, 0), balance = 1000, creator = 1, recipient = 7, price = 40, unlock_time = 100\<rparr>"
    by simp
  have b: "claim_coin \<lparr>CoinEscrow.uid = (0, 0), balance = 1000, creator = 1, recipient = 7, price = 40, unlock_time = 100\<rparr>
     50 \<lparr>timestamp_ms = 99\<rparr> \<lparr>sender = 7, tx_hash = 3, ids_created = 0\<rparr> (no_effects :: string effects) =
   Inl (MoveAbort Escrow ENotReadyYet, no_effects)"
    using g [THEN conjunct1] by simp
  have c: "claim_nft \<lparr>NftEscrow.uid = (1, 0), item = ((9, 9), ''art''), creator = 1, recipient = 7, price = 40, unlock_time = 100\<rparr>
     50 \<lparr>timestamp_ms = 99\<rparr> \<lparr>sender = 7, tx_hash = 3, ids_created = 0\<rparr> (no_effects :: string effects) =
   Inl (MoveAbort Escrow ENotReadyYet, no_effects)"
    using g [THEN conjunct2, THEN conjunct1] by simp
  have d: "claim_coin \<lparr>CoinEscrow.uid = (0, 0), balance = 1000, creator = 1, recipient = 7, price = 0, unlock_time = 0\<rparr>
     0 \<lparr>timestamp_ms = 99\<rparr> \<lparr>sender = 7, tx_hash = 3, ids_created = 0\<rparr> (no_effects :: string effects) =
   claim_coin \<lparr>CoinEscrow.uid = (0, 0), balance = 1000, creator = 1, recipient = 7, price = 0, unlock_time = 0\<rparr>
     0 \<lparr>timestamp_ms = 0\<rparr> \<lparr>sender = 7, tx_hash = 3, ids_created = 0\<rparr> (no_effects :: string effects)"
    using z [THEN conjunct2, THEN conjunct2, THEN conjunct1] by simp
  have e: "\<exists>fx'. claim_coin \<lparr>CoinEscrow.uid = (0, 0), balance = 1000, creator = 1, recipient = 7, price = 0, unlock_time = 0\<rparr>
     0 \<lparr>timestamp_ms = 99\<rparr> \<lparr>sender = 7, tx_hash = 3, ids_created = 0\<rparr> (no_effects :: string effects) = Inr fx'"
    using z [THEN conjunct2, THEN conjunct2, THEN conjunct2, THEN conjunct1] by simp
  have f: "claim_nft \<lparr>NftEscrow.uid = (1, 0), item = ((9, 9), ''art''), creator = 1, recipient = 7, price = 0, unlock_time = 0\<rparr>
     0 \<lparr>timestamp_ms = 99\<rparr> \<lparr>sender = 7, tx_hash = 3, ids_created = 0\<rparr> (no_effects :: string effects) =
   claim_nft \<lparr>NftEscrow.uid = (1, 0), item = ((9, 9), ''art''), creator = 1, recipient = 7, price = 0, unlock_time = 0\<rparr>
     0 \<lparr>timestamp_ms = 0\<rparr> \<lparr>sender = 7, tx_hash = 3, ids_created = 0\<rparr> (no_effects :: string effects)"
    using z [THEN conjunct2, THEN conjunct2, THEN conjunct2, THEN conjunct2, THEN conjunct1]
    by simp
  have h: "\<exists>fx'. claim_nft \<lparr>NftEscrow.uid = (1, 0), item = ((9, 9), ''art''), creator = 1, recipient = 7, price = 0, unlock_time = 0\<rparr>
     0 \<lparr>timestamp_ms = 99\<rparr> \<lparr>sender = 7, tx_hash = 3, ids_created = 0\<rparr> (no_effects :: string effects) = Inr fx'"
    using z [THEN conjunct2, THEN conjunct2, THEN conjunct2, THEN conjunct2, THEN conjunct2]
    by simp
  from a b c d e f h show ?thesis by blast
qed

text \<open>
  C6. Single claim. In any ledger reached from the empty one, a claim that succeeds finds the
  escrow stored under the claimed id, delivers the whole balance (or the asset) to the sender,
  and leaves no escrow under that id; after any further transactions, every claim of that id,
  by \<open>claim_coin\<close> or \<open>claim_nft\<close>, is rejected because no object has that id.
\<close>

theorem single_claim:
  "(apply_tx (run genesis pre) (who, now, ClaimCoin rid payment) = (Success, L1) \<longrightarrow>
      (\<exists>e. coin_escrows (run genesis pre) rid = Some e \<and> CoinEscrow.uid e = rid \<and>
           delivered L1 = delivered (run genesis pre) @
             [(Coin PaymentCoin (CoinEscrow.price e), CoinEscrow.creator e),
              (Coin PaymentCoin (payment - CoinEscrow.price e), who),
              (Coin T_coin (CoinEscrow.balance e), who)]) \<and>
      coin_escrows L1 rid = None \<and> nft_escrows L1 rid = None \<and>
      apply_tx (run L1 post) (who', now', ClaimCoin rid payment') =
        (ObjectNotFound, run L1 post) \<and>
      apply_tx (run L1 post) (who', now', ClaimNft rid payment') =
        (ObjectNotFound, run L1 post)) \<and>
   (apply_tx (run genesis pre) (who, now, ClaimNft rid payment) = (Success, L1) \<longrightarrow>
      (\<exists>n. nft_escrows (run genesis pre) rid = Some n \<and> NftEscrow.uid n = rid \<and>
           delivered L1 = delivered (run genesis pre) @
             [(Coin PaymentCoin (NftEscrow.price n), NftEscrow.creator n),
              (Coin PaymentCoin (payment - NftEscrow.price n), who),
              (Nft (NftEscrow.item n), who)]) \<and>
      coin_escrows L1 rid = None \<and> nft_escrows L1 rid = None \<and>
      apply_tx (run L1 post) (who', now', ClaimCoin rid payment') =
        (ObjectNotFound, run L1 post) \<and>
      apply_tx (run L1 post) (who', now', ClaimNft rid payment') =
        (ObjectNotFound, run L1 post))"
proof (intro conjI impI)
  assume a: "apply_tx (run genesis pre) (who, now, ClaimCoin rid payment) = (Success, L1)"
  note w = well_formed_run [OF well_formed_genesis, of pre]
  note g = claim_coin_gone(2) [OF w a]
  show "\<exists>e. coin_escrows (run genesis pre) rid = Some e \<and> CoinEscrow.uid e = rid \<and>
           delivered L1 = delivered (run genesis pre) @
             [(Coin PaymentCoin (CoinEscrow.price e), CoinEscrow.creator e),
              (Coin PaymentCoin (payment - CoinEscrow.price e), who),
              (Coin T_coin (CoinEscrow.balance e), who)]"
    by (rule claim_coin_gone(1) [OF w a])
  show "coin_escrows L1 rid = None" "nft_escrows L1 rid = None"
    using g by (simp_all add: gone_def)
  show "apply_tx (run L1 post) (who', now', ClaimCoin rid payment') =
        (ObjectNotFound, run L1 post)"
    by (rule gone_not_found(1) [OF gone_run [OF g]])
  show "apply_tx (run L1 post) (who', now', ClaimNft rid payment') =
        (ObjectNotFound, run L1 post)"
    by (rule gone_not_found(2) [OF gone_run [OF g]])
next
  assume a: "apply_tx (run genesis pre) (who, now, ClaimNft rid payment) = (Success, L1)"
  note w = well_formed_run [OF well_formed_genesis, of pre]
  note g = claim_nft_gone(2) [OF w a]
  show "\<exists>n. nft_escrows (run genesis pre) rid = Some n \<and> NftEscrow.uid n = rid \<and>
           delivered L1 = delivered (run genesis pre) @
             [(Coin PaymentCoin (NftEscrow.price n), NftEscrow.creator n),
              (Coin PaymentCoin (payment - NftEscrow.price n), who),
              (Nft (NftEscrow.item n), who)]"
    by (rule claim_nft_gone(1) [OF w a])
  show "coin_escrows L1 rid = None" "nft_escrows L1 rid = None"
    using g by (simp_all add: gone_def)
  show "apply_tx (run L1 post) (who', now', ClaimCoin rid payment') =
        (ObjectNotFound, run L1 post)"
    by (rule gone_not_found(1) [OF gone_run [OF g]])
  show "apply_tx (run L1 post) (who', now', ClaimNft rid payment') =
        (ObjectNotFound, run L1 post)"
    by (rule gone_not_found(2) [OF gone_run [OF g]])
qed

theorem single_claim_witness:
  "apply_tx (run genesis [(1, 0, LockCoin 1000 7 0 0)]) (7, 5, ClaimCoin (0, 0) 0) =
     (Success, \<lparr>coin_escrows = Map.empty, nft_escrows = Map.empty, next_tx = 2,
        delivered = [(Coin PaymentCoin 0, 1), (Coin PaymentCoin 0, 7), (Coin T_coin 1000, 7)],
        event_log = [CoinLockEvent (0, 0) 1 7 1000 0 0, CoinClaimEvent (0, 0) 7 1000 0]\<rparr> :: string ledger) \<and>
   fst (apply_tx (run (\<lparr>coin_escrows = Map.empty, nft_escrows = Map.empty, next_tx = 2,
        delivered = [(Coin PaymentCoin 0, 1), (Coin PaymentCoin 0, 7), (Coin T_coin 1000, 7)],
        event_log = [CoinLockEvent (0, 0) 1 7 1000 0 0, CoinClaimEvent (0, 0) 7 1000 0]\<rparr> :: string ledger)
                    [(1, 6, LockCoin 1000 7 0 0)]) (7, 9, ClaimCoin (0, 0) 0)) =
     ObjectNotFound \<and>
   apply_tx (run genesis [(1, 0, LockNft ((9, 9), ''art'') 7 0 0)]) (7, 5, ClaimNft (0, 0) 0) =
     (Success, \<lparr>coin_escrows = Map.empty, nft_escrows = Map.empty, next_tx = 2,
        delivered = [(Coin PaymentCoin 0, 1), (Coin PaymentCoin 0, 7), (Nft ((9, 9), ''art''), 7)],
        event_log = [NftLockEvent (0, 0) (9, 9) 1 7 0 0, NftClaimEvent (0, 0) (9, 9) 7 0]\<rparr>) \<and>
   fst (apply_tx (run \<lparr>coin_escrows = Map.empty, nft_escrows = Map.empty, next_tx = 2,
        delivered = [(Coin PaymentCoin 0, 1), (Coin PaymentCoin 0, 7), (Nft ((9, 9), ''art''), 7)],
        event_log = [NftLockEvent (0, 0) (9, 9) 1 7 0 0, NftClaimEvent (0, 0) (9, 9) 7 0]\<rparr>
                    [(1, 6, LockNft ((9, 9), ''art'') 7 0 0)]) (7, 9, ClaimNft (0, 0) 0)) =
     ObjectNotFound"
proof -
  have hc: "apply_tx (run genesis [(1, 0, LockCoin 1000 7 0 0)]) (7, 5, ClaimCoin (0, 0) 0) =
     (Success, \<lparr>coin_escrows = Map.empty, nft_escrows = Map.empty, next_tx = 2,
        delivered = [(Coin PaymentCoin 0, 1), (Coin PaymentCoin 0, 7), (Coin T_coin 1000, 7)],
        event_log = [CoinLockEvent (0, 0) 1 7 1000 0 0, CoinClaimEvent (0, 0) 7 1000 0]\<rparr> :: string ledger)"
    by (simp add: apply_tx_def apply_escrow_calls genesis_def)
  have hn: "apply_tx (run genesis [(1, 0, LockNft ((9, 9), ''art'') 7 0 0)]) (7, 5, ClaimNft (0, 0) 0) =
     (Success, \<lparr>coin_escrows = Map.empty, nft_escrows = Map.empty, next_tx = 2,
        delivered = [(Coin PaymentCoin 0, 1), (Coin PaymentCoin 0, 7), (Nft ((9, 9), ''art''), 7)],
        event_log = [NftLockEvent (0, 0) (9, 9) 1 7 0 0, NftClaimEvent (0, 0) (9, 9) 7 0]\<rparr>)"
    by (simp add: apply_tx_def apply_escrow_calls genesis_def object_id_def)
  have c: "fst (apply_tx (run (\<lparr>coin_escrows = Map.empty, nft_escrows = Map.empty, next_tx = 2,
        delivered = [(Coin PaymentCoin 0, 1), (Coin PaymentCoin 0, 7), (Coin T_coin 1000, 7)],
        event_log = [CoinLockEvent (0, 0) 1 7 1000 0 0, CoinClaimEvent (0, 0) 7 1000 0]\<rparr> :: string ledger)
                    [(1, 6, LockCoin 1000 7 0 0)]) (7, 9, ClaimCoin (0, 0) 0)) =
     ObjectNotFound"
    using single_claim [THEN conjunct1, rule_format, OF hc,
        of "[(1, 6, LockCoin 1000 7 0 0)]" 7 9 0]
    by simp
  have n: "fst (apply_tx (run \<lparr>coin_escrows = Map.empty, nft_escrows = Map.empty, next_tx = 2,
        delivered = [(Coin PaymentCoin 0, 1), (Coin PaymentCoin 0, 7), (Nft ((9, 9), ''art''), 7)],
        event_log = [NftLockEvent (0, 0) (9, 9) 1 7 0 0, NftClaimEvent (0, 0) (9, 9) 7 0]\<rparr>
                    [(1, 6, LockNft ((9, 9), ''art'') 7 0 0)]) (7, 9, ClaimNft (0, 0) 0)) =
     ObjectNotFound"
    using single_claim [THEN conjunct2, rule_format, OF hn,
        of "[(1, 6, LockNft ((9, 9), ''art'') 7 0 0)]" 7 9 0]
    by simp
  from hc c hn n show ?thesis by blast
qed

end
